theory Spec2Isabelle
  imports Complex_Main "HOL-Library.Log_Nat"
begin

section \<open>Numbers of the source language\<close>

text \<open>
  The service is TypeScript. Its \<^verbatim>\<open>number\<close> is read in two ways. The orchestrator, and
  the properties of sign, order and zero of the amounts, read it as \<^typ>\<open>real\<close> with exact
  arithmetic: there the formulas are formulas over the reals, and rounding error of the
  binary representation, NaN and the infinities are left out. The value that the scoring
  formula and the approved amount return is read in binary floating point, the arithmetic
  the engine runs: the type \<open>double\<close> and the functions \<open>computeTotalRevenue64\<close> and
  \<open>computeCreditOffer64\<close> below. An optional value (\<^verbatim>\<open>T | undefined\<close>, a field declared
  with \<^verbatim>\<open>?\<close>) is an \<^typ>\<open>'a option\<close>.
\<close>

type_synonym number = real

text \<open>\<^verbatim>\<open>Math.round\<close>: the nearest integer, a tie going towards plus infinity.\<close>

definition Math_round :: "number \<Rightarrow> number" where
  "Math_round x = of_int \<lfloor>x + 1 / 2\<rfloor>"

text \<open>\<^verbatim>\<open>Math.pow\<close>, which the service only calls with an integer exponent.\<close>

definition Math_pow :: "number \<Rightarrow> int \<Rightarrow> number" where
  "Math_pow b e = (if 0 \<le> e then b ^ nat e else 1 / b ^ nat (- e))"

text \<open>Truthiness of an optional number, boolean and string, as \<^verbatim>\<open>if (x)\<close> tests it.\<close>

definition truthy_number :: "number option \<Rightarrow> bool" where
  "truthy_number x = (case x of None \<Rightarrow> False | Some v \<Rightarrow> v \<noteq> 0)"

definition truthy_bool :: "bool option \<Rightarrow> bool" where
  "truthy_bool x = (case x of None \<Rightarrow> False | Some v \<Rightarrow> v)"

definition truthy_string :: "string \<Rightarrow> bool" where
  "truthy_string s = (s \<noteq> [])"

text \<open>\<^verbatim>\<open>x ?? d\<close>\<close>

definition nullish :: "'a option \<Rightarrow> 'a \<Rightarrow> 'a" where
  "nullish x d = (case x of None \<Rightarrow> d | Some v \<Rightarrow> v)"

section \<open>Binary floating point\<close>

text \<open>
  A \<^verbatim>\<open>number\<close> as the engine holds it: an IEEE 754 binary64 value. A finite value is the
  real it denotes; the two zeros are one value (they are equal under \<^verbatim>\<open>===\<close> and under
  every comparison, and differ only as divisors, see \<open>fdiv\<close>).
\<close>

datatype double = Finite real | PosInfinity | NegInfinity | NaN

definition pow2 :: "int \<Rightarrow> real" where
  "pow2 k = (if 0 \<le> k then 2 ^ nat k else 1 / 2 ^ nat (- k))"

text \<open>The exponent \<open>e\<close> with \<open>2 ^ e \<le> \<bar>x\<bar> < 2 ^ (e + 1)\<close>, for \<open>x\<close> other than 0.\<close>

definition binade :: "real \<Rightarrow> int" where
  "binade x =
     (if 1 \<le> \<bar>x\<bar> then int (floorlog 2 (nat \<lfloor>\<bar>x\<bar>\<rfloor>)) - 1
      else - int (floorlog 2 (nat (\<lceil>1 / \<bar>x\<bar>\<rceil> - 1))))"

definition round_half_even :: "real \<Rightarrow> int" where
  "round_half_even x =
     (let f = \<lfloor>x\<rfloor>; d = x - of_int f
      in if d < 1 / 2 then f else if 1 / 2 < d then f + 1 else if even f then f else f + 1)"

text \<open>
  The binary64 value of a real, which is the value of a decimal literal and the result of
  an arithmetic operation on finite operands: the nearest multiple of the unit in the last
  place (53 significant bits, the least exponent being -1022), a tie going to the even
  multiple, and an infinity from \<open>2 ^ 1024\<close> on.
\<close>

definition binary64 :: "real \<Rightarrow> double" where
  "binary64 x =
     (if x = 0 then Finite 0
      else
        let ulp = pow2 (max (binade x) (- 1022) - 52);
            r = of_int (round_half_even (x / ulp)) * ulp
        in if 2 ^ 1024 \<le> \<bar>r\<bar> then (if 0 < x then PosInfinity else NegInfinity)
           else Finite r)"

abbreviation dbl :: "real \<Rightarrow> double" where
  "dbl \<equiv> binary64"

definition fneg :: "double \<Rightarrow> double" where
  "fneg a = (case a of Finite x \<Rightarrow> Finite (- x) | PosInfinity \<Rightarrow> NegInfinity
             | NegInfinity \<Rightarrow> PosInfinity | NaN \<Rightarrow> NaN)"

definition infinity_of_sign :: "real \<Rightarrow> double" where
  "infinity_of_sign s = (if s = 0 then NaN else if 0 < s then PosInfinity else NegInfinity)"

text \<open>\<^verbatim>\<open>a * b\<close>, \<^verbatim>\<open>a + b\<close> and \<^verbatim>\<open>a - b\<close>\<close>

fun fmul :: "double \<Rightarrow> double \<Rightarrow> double" where
  "fmul (Finite x) (Finite y) = binary64 (x * y)"
| "fmul NaN b = NaN"
| "fmul a NaN = NaN"
| "fmul (Finite x) PosInfinity = infinity_of_sign x"
| "fmul (Finite x) NegInfinity = infinity_of_sign (- x)"
| "fmul PosInfinity (Finite y) = infinity_of_sign y"
| "fmul NegInfinity (Finite y) = infinity_of_sign (- y)"
| "fmul PosInfinity PosInfinity = PosInfinity"
| "fmul NegInfinity NegInfinity = PosInfinity"
| "fmul PosInfinity NegInfinity = NegInfinity"
| "fmul NegInfinity PosInfinity = NegInfinity"

fun fadd :: "double \<Rightarrow> double \<Rightarrow> double" where
  "fadd (Finite x) (Finite y) = binary64 (x + y)"
| "fadd NaN b = NaN"
| "fadd a NaN = NaN"
| "fadd PosInfinity NegInfinity = NaN"
| "fadd NegInfinity PosInfinity = NaN"
| "fadd PosInfinity b = PosInfinity"
| "fadd NegInfinity b = NegInfinity"
| "fadd a PosInfinity = PosInfinity"
| "fadd a NegInfinity = NegInfinity"

definition fsub :: "double \<Rightarrow> double \<Rightarrow> double" where
  "fsub a b = fadd a (fneg b)"

text \<open>
  \<^verbatim>\<open>a / b\<close>. A zero divisor is taken as the positive zero, which is the only zero divisor
  the engine can meet: it divides by the literals 100 and 1000 and by a difference
  \<^verbatim>\<open>1 - x\<close>, which is the positive zero when it is zero.
\<close>

fun fdiv :: "double \<Rightarrow> double \<Rightarrow> double" where
  "fdiv (Finite x) (Finite y) = (if y = 0 then infinity_of_sign x else binary64 (x / y))"
| "fdiv NaN b = NaN"
| "fdiv a NaN = NaN"
| "fdiv (Finite x) b = Finite 0"
| "fdiv PosInfinity (Finite y) = (if 0 \<le> y then PosInfinity else NegInfinity)"
| "fdiv NegInfinity (Finite y) = (if 0 \<le> y then NegInfinity else PosInfinity)"
| "fdiv a b = NaN"

text \<open>\<^verbatim>\<open>a >= b\<close>, \<^verbatim>\<open>a > b\<close>, \<^verbatim>\<open>a < b\<close> and \<^verbatim>\<open>a === b\<close>: every comparison with NaN is false.\<close>

fun fge :: "double \<Rightarrow> double \<Rightarrow> bool" where
  "fge NaN b = False"
| "fge a NaN = False"
| "fge (Finite x) (Finite y) = (y \<le> x)"
| "fge PosInfinity b = True"
| "fge a NegInfinity = True"
| "fge a b = False"

fun fgt :: "double \<Rightarrow> double \<Rightarrow> bool" where
  "fgt NaN b = False"
| "fgt a NaN = False"
| "fgt (Finite x) (Finite y) = (y < x)"
| "fgt PosInfinity PosInfinity = False"
| "fgt NegInfinity b = False"
| "fgt PosInfinity b = True"
| "fgt (Finite x) NegInfinity = True"
| "fgt (Finite x) PosInfinity = False"

definition flt :: "double \<Rightarrow> double \<Rightarrow> bool" where
  "flt a b = fgt b a"

definition strict_eq :: "double \<Rightarrow> double \<Rightarrow> bool" where
  "strict_eq a b = (a \<noteq> NaN \<and> a = b)"

text \<open>
  \<^verbatim>\<open>Math.round\<close> of a double: the nearest integer of a finite value, a tie going towards
  plus infinity (that integer is a double); NaN and the infinities are returned as they are.
\<close>

definition Math_round64 :: "double \<Rightarrow> double" where
  "Math_round64 a = (case a of Finite x \<Rightarrow> Finite (Math_round x) | _ \<Rightarrow> a)"

text \<open>
  \<^verbatim>\<open>Math.pow\<close> of doubles is implementation-approximated: the language fixes its special
  cases and leaves the last place of the other results to the implementation. The credit
  offer calculator below therefore takes the power function as a parameter. For concrete
  evaluations \<open>pow_rounded\<close> is the exact power, correctly rounded, of a non-zero finite
  base to a whole exponent, which is how the calculator calls it; on other arguments it is
  not used and gives NaN.
\<close>

definition pow_rounded :: "double \<Rightarrow> double \<Rightarrow> double" where
  "pow_rounded a b =
     (case (a, b) of
        (Finite x, Finite y) \<Rightarrow>
          if x \<noteq> 0 \<and> of_int \<lfloor>y\<rfloor> = y then binary64 (Math_pow x \<lfloor>y\<rfloor>) else NaN
      | _ \<Rightarrow> NaN)"

section \<open>Strings\<close>

text \<open>
  A string is the list of the bytes of its text in UTF-8 (a text with an unpaired
  surrogate has no such encoding and is outside the model).

  \<^verbatim>\<open>toLowerCase\<close>: the mapping is written out for the letters A to Z and for the two other
  characters whose lower case contains an ASCII letter, U+212A (to k) and U+0130 (to i
  followed by U+0307). Every other character is left in place: its lower case has no ASCII
  byte, so an ASCII keyword occurs in the result exactly when it occurs in the lower case
  the source computes.
\<close>

definition toLowerCase_char :: "char \<Rightarrow> char" where
  "toLowerCase_char c =
     (let n = (of_char c :: nat) in if 65 \<le> n \<and> n \<le> 90 then char_of (n + 32) else c)"

fun toLowerCase :: "string \<Rightarrow> string" where
  "toLowerCase (a # b # c # s) =
     (if a = CHR 0xE2 \<and> b = CHR 0x84 \<and> c = CHR 0xAA then CHR ''k'' # toLowerCase s
      else if a = CHR 0xC4 \<and> b = CHR 0xB0
        then CHR ''i'' # CHR 0xCC # CHR 0x87 # toLowerCase (c # s)
      else toLowerCase_char a # toLowerCase (b # c # s))"
| "toLowerCase [a, b] =
     (if a = CHR 0xC4 \<and> b = CHR 0xB0 then [CHR ''i'', CHR 0xCC, CHR 0x87]
      else [toLowerCase_char a, toLowerCase_char b])"
| "toLowerCase [a] = [toLowerCase_char a]"
| "toLowerCase [] = []"

fun startsWith :: "string \<Rightarrow> string \<Rightarrow> bool" where
  "startsWith s [] = True"
| "startsWith [] (t # ts) = False"
| "startsWith (c # cs) (t # ts) = (c = t \<and> startsWith cs ts)"

fun includes_str :: "string \<Rightarrow> string \<Rightarrow> bool" where
  "includes_str [] t = (t = [])"
| "includes_str (c # cs) t = (startsWith (c # cs) t \<or> includes_str cs t)"

text \<open>
  \<^verbatim>\<open>trim\<close> strips the white space and the line terminators of ECMAScript from both
  ends: U+0009 to U+000D and U+0020 (one byte), U+00A0 (two bytes), and U+1680, U+2000 to
  U+200A, U+2028, U+2029, U+202F, U+205F, U+3000 and U+FEFF (three bytes).
\<close>

definition is_space1 :: "char \<Rightarrow> bool" where
  "is_space1 a = (a \<in> set [CHR 0x09, CHR 0x0A, CHR 0x0B, CHR 0x0C, CHR 0x0D, CHR 0x20])"

definition is_space2 :: "char \<Rightarrow> char \<Rightarrow> bool" where
  "is_space2 a b = (a = CHR 0xC2 \<and> b = CHR 0xA0)"

definition is_space3 :: "char \<Rightarrow> char \<Rightarrow> char \<Rightarrow> bool" where
  "is_space3 a b c =
     ((a = CHR 0xE1 \<and> b = CHR 0x9A \<and> c = CHR 0x80) \<or>
      (a = CHR 0xE2 \<and> b = CHR 0x80 \<and>
         (c \<in> set [CHR 0x80, CHR 0x81, CHR 0x82, CHR 0x83, CHR 0x84, CHR 0x85, CHR 0x86,
                    CHR 0x87, CHR 0x88, CHR 0x89, CHR 0x8A, CHR 0xA8, CHR 0xA9, CHR 0xAF])) \<or>
      (a = CHR 0xE2 \<and> b = CHR 0x81 \<and> c = CHR 0x9F) \<or>
      (a = CHR 0xE3 \<and> b = CHR 0x80 \<and> c = CHR 0x80) \<or>
      (a = CHR 0xEF \<and> b = CHR 0xBB \<and> c = CHR 0xBF))"

fun trimStart :: "string \<Rightarrow> string" where
  "trimStart (a # b # c # s) =
     (if is_space1 a then trimStart (b # c # s)
      else if is_space2 a b then trimStart (c # s)
      else if is_space3 a b c then trimStart s
      else a # b # c # s)"
| "trimStart [a, b] =
     (if is_space1 a then trimStart [b] else if is_space2 a b then [] else [a, b])"
| "trimStart [a] = (if is_space1 a then [] else [a])"
| "trimStart [] = []"

text \<open>The same from the end, on the reversed string (the last byte comes first).\<close>

fun trimEnd_rev :: "string \<Rightarrow> string" where
  "trimEnd_rev (c # b # a # s) =
     (if is_space1 c then trimEnd_rev (b # a # s)
      else if is_space2 b c then trimEnd_rev (a # s)
      else if is_space3 a b c then trimEnd_rev s
      else c # b # a # s)"
| "trimEnd_rev [b, a] =
     (if is_space1 b then trimEnd_rev [a] else if is_space2 a b then [] else [b, a])"
| "trimEnd_rev [a] = (if is_space1 a then [] else [a])"
| "trimEnd_rev [] = []"

definition trim :: "string \<Rightarrow> string" where
  "trim s = rev (trimEnd_rev (rev (trimStart s)))"

text \<open>\<^verbatim>\<open>s.split(" ")\<close>: never empty, the empty string splits into one empty piece.\<close>

fun split_space :: "string \<Rightarrow> string list" where
  "split_space [] = [[]]"
| "split_space (c # cs) =
     (if c = CHR '' '' then [] # split_space cs
      else (case split_space cs of [] \<Rightarrow> [[c]] | p # ps \<Rightarrow> (c # p) # ps))"

text \<open>\<^verbatim>\<open>parts.join(" ")\<close>\<close>

fun join_space :: "string list \<Rightarrow> string" where
  "join_space [] = []"
| "join_space [p] = p"
| "join_space (p # q # ps) = p @ '' '' @ join_space (q # ps)"

section \<open>Data model (models/Application)\<close>

text \<open>
  The records keep the fields the engine reads or writes. Field names carry a prefix per
  record, since several interfaces of the source share names (\<^verbatim>\<open>connected\<close>,
  \<^verbatim>\<open>rating\<close>). Time stamps (\<^verbatim>\<open>fetched_at\<close>, \<^verbatim>\<open>decided_at\<close>) and the raw response
  copy are left out: they read the clock and no decision depends on them.
\<close>

datatype DecisionStatus = UNDERWRITING_PENDING | APPROVED | REJECTED | MANUAL_REVIEW

record FormData =
  fd_legal_name :: "string option"
  fd_tax_id :: "string option"
  fd_phone :: "string option"
  fd_google_business_url :: "string option"
  fd_facebook_access_token :: "string option"
  fd_instagram_access_token :: "string option"

record ApplicationDoc =
  app_id :: string
  merchant_id :: string
  form_data :: "FormData option"

text \<open>
  What the tax/revenue provider answers (\<^verbatim>\<open>SyntageRevenueData\<close>). The client returns the
  body of the response as it is, so a field that the interface declares may be missing;
  the fields the engine only copies are therefore optional here. The annual revenue is the
  one field it computes with: a response without it gives a revenue that is not a number,
  which the exact reading of \<^verbatim>\<open>number\<close> cannot carry.
\<close>

record SyntageRevenueData =
  raw_merchant_id :: "string option"
  raw_annual_revenue :: number
  raw_months_active :: "number option"
  raw_currency :: "string option"
  raw_last_updated :: "string option"
  raw_tax_regime :: "string option"
  raw_cfdi_count_last_12m :: "number option"
  raw_tax_compliance :: "bool option"

record SyntageResult =
  sy_merchant_id :: "string option"
  sy_annual_revenue :: number
  sy_monthly_revenue :: number
  sy_months_active :: "number option"
  sy_tax_regime :: "string option"
  sy_cfdi_count_last_12m :: "number option"
  sy_tax_compliance :: "bool option"

record PlacesResult =
  pl_connected :: bool
  pl_business_name :: "string option"
  pl_rating :: "number option"
  pl_total_review_count :: "number option"
  pl_price_level_index :: "number option"
  pl_is_verified :: "bool option"
  pl_categories :: "string list option"
  pl_has_website :: "bool option"
  pl_business_status :: "string option"
  pl_signals_score :: "number option"

record FacebookResult =
  fb_connected :: bool
  fb_page_name :: "string option"
  fb_fan_count :: "number option"
  fb_rating :: "number option"

record InstagramResult =
  ig_connected :: bool
  ig_username :: "string option"
  ig_followers_count :: "number option"
  ig_media_count :: "number option"

record TwilioResult =
  tw_connected :: bool
  tw_identity_match :: "bool option"
  tw_whatsapp_business :: "bool option"
  tw_line_type :: "string option"
  tw_sim_swap_detected :: "bool option"

record BureauResult =
  bu_bureau_score :: "number option"
  bu_active_debt_amount :: "number option"

record PlatformResult =
  pf_avg_platform_gmv_6m :: "number option"
  pf_tenure_months :: "number option"
  pf_pre_approved_amount :: "number option"

record CreditOffer =
  approved_amount :: number
  interest_rate_monthly :: number
  installments :: number
  monthly_payment :: number
  withholding_amount :: number
  direct_debit_amount :: number
  currency :: string

text \<open>
  The reason is a text made of sentences joined by one blank. Each sentence of
  \<^verbatim>\<open>buildReason\<close> is a constructor here, carrying the values the sentence prints; the
  wording (Spanish, with locale number formatting) is not modelled.
\<close>

datatype TwilioNote = IdentityVerified | WhatsappBusinessActive | SimSwapDetected

datatype ReasonPart =
    ManualReviewHeader
  | SatSales number bool
  | SatUnavailable
  | PlacesScorePart number
  | FacebookFollowers number
  | InstagramFollowers number
  | TwilioLookup "TwilioNote list"
  | BureauScorePart number
  | PlatformGmv number

record DecisionPayload =
  credit_offer :: "CreditOffer option"
  reason :: "ReasonPart list"
  syntage_monthly_revenue :: number
  syntage_tax_compliance :: bool
  syntage_cfdi_count :: "number option"
  syntage_tax_regime :: "string option"
  places_signals_score :: number
  places_rating :: "number option"
  places_review_count :: "number option"
  facebook_fan_count :: "number option"
  facebook_rating :: "number option"
  instagram_followers :: "number option"
  instagram_media_count :: "number option"
  twilio_identity_match :: "bool option"
  twilio_whatsapp_business :: "bool option"
  twilio_sim_swap_detected :: "bool option"
  twilio_line_type :: "string option"
  bureau_score :: "number option"
  platform_gmv_6m :: "number option"
  platform_tenure_months :: "number option"
  total_revenue :: number
  threshold_used :: number
  data_sources :: "string list"

record UnderwritingDecision =
  status :: DecisionStatus
  payload :: DecisionPayload
  syntage_result :: "SyntageResult option"
  places_result :: "PlacesResult option"
  facebook_result :: "FacebookResult option"
  instagram_result :: "InstagramResult option"
  twilio_result :: "TwilioResult option"
  bureau_result :: "BureauResult option"
  platform_result :: "PlatformResult option"

text \<open>The configuration values the engine reads (config/env).\<close>

record Env =
  DEMO_MODE :: bool
  APPROVAL_THRESHOLD :: number
  SYNTAGE_TIMEOUT_MS :: number

section \<open>Signals scorer (clients/googleClient, computeSignalsScore)\<close>

definition commercialTypes :: "string list" where
  "commercialTypes =
     [''restaurant'', ''food'', ''store'', ''bakery'', ''cafe'', ''bar'', ''supermarket'',
      ''pharmacy'']"

definition hasCommercialType :: "PlacesResult \<Rightarrow> bool" where
  "hasCommercialType data =
     (case pl_categories data of
        None \<Rightarrow> False
      | Some cs \<Rightarrow> list_ex (\<lambda>c. list_ex (\<lambda>t. includes_str (toLowerCase c) t) commercialTypes) cs)"

definition ratingPoints :: "PlacesResult \<Rightarrow> number" where
  "ratingPoints data =
     (if truthy_number (pl_rating data) then
        (if the (pl_rating data) \<ge> 4.5 then 25
         else if the (pl_rating data) \<ge> 4.0 then 20
         else if the (pl_rating data) \<ge> 3.5 then 12
         else 5)
      else 0)"

definition reviewPoints :: "PlacesResult \<Rightarrow> number" where
  "reviewPoints data =
     (if truthy_number (pl_total_review_count data) then
        (if the (pl_total_review_count data) \<ge> 200 then 20
         else if the (pl_total_review_count data) \<ge> 100 then 15
         else if the (pl_total_review_count data) \<ge> 50 then 10
         else if the (pl_total_review_count data) \<ge> 10 then 5
         else 0)
      else 0)"

definition pricePoints :: "PlacesResult \<Rightarrow> number" where
  "pricePoints data =
     (if truthy_number (pl_price_level_index data) \<and> the (pl_price_level_index data) \<ge> 3
      then 5 else 0)"

text \<open>
  The source adds to a running \<^verbatim>\<open>score\<close> that starts at 0, in this order; the three
  graded additions are the functions above.
\<close>

definition computeSignalsScore :: "PlacesResult \<Rightarrow> number" where
  "computeSignalsScore data =
     (let score = 0;
          score = score + ratingPoints data;
          score = score + reviewPoints data;
          score = score + (if truthy_bool (pl_is_verified data) then 10 else 0);
          score = score + (if truthy_bool (pl_has_website data) then 10 else 0);
          score = score + (if pl_business_status data = Some ''OPERATIONAL'' then 10 else 0);
          score = score + (if hasCommercialType data then 10 else 0);
          score = score + pricePoints data
      in min score 100)"

section \<open>Revenue scoring engine (services/underwriting.service, computeTotalRevenue)\<close>

definition computeTotalRevenue ::
  "number \<Rightarrow> number \<Rightarrow> number option \<Rightarrow> number option \<Rightarrow> bool \<Rightarrow>
   number option \<Rightarrow> number option \<Rightarrow> bool option \<Rightarrow> bool option \<Rightarrow> bool option \<Rightarrow> number" where
  "computeTotalRevenue syntageMonthly placesScore bureauScore tenureMonths taxCompliance
     facebookFans instagramFollowers twilioIdentityMatch twilioWhatsapp twilioSimSwap =
   (if syntageMonthly = 0 then 0
    else
      let placesBoost = 1 + (placesScore / 100) * 0.20;
          facebookBoost =
            (case facebookFans of None \<Rightarrow> 0
             | Some f \<Rightarrow> if f \<ge> 5000 then 0.08 else if f \<ge> 1000 then 0.05 else 0.02);
          instagramBoost =
            (case instagramFollowers of None \<Rightarrow> 0
             | Some f \<Rightarrow> if f \<ge> 5000 then 0.07 else if f \<ge> 1000 then 0.04 else 0.01);
          socialBoost = 1 + facebookBoost + instagramBoost;
          identityBoost = (if twilioIdentityMatch = Some True then 1.05 else 1.0);
          whatsappBoost = (if twilioWhatsapp = Some True then 1.03 else 1.0);
          simSwapPenalty = (if twilioSimSwap = Some True then 0.90 else 1.0);
          bureauMultiplier =
            (case bureauScore of None \<Rightarrow> 1.0
             | Some b \<Rightarrow> if b > 700 then 1.10 else if b > 600 then 1.0 else 0.90);
          tenureMultiplier =
            (case tenureMonths of None \<Rightarrow> 1.0
             | Some t \<Rightarrow> if t > 24 then 1.05 else if t < 6 then 0.95 else 1.0);
          complianceMultiplier = (if taxCompliance then 1.0 else 0.80)
      in Math_round
           (syntageMonthly * placesBoost * socialBoost * identityBoost * whatsappBoost *
            simSwapPenalty * bureauMultiplier * tenureMultiplier * complianceMultiplier))"

text \<open>The same function in binary floating point, operation by operation.\<close>

definition computeTotalRevenue64 ::
  "double \<Rightarrow> double \<Rightarrow> double option \<Rightarrow> double option \<Rightarrow> bool \<Rightarrow>
   double option \<Rightarrow> double option \<Rightarrow> bool option \<Rightarrow> bool option \<Rightarrow> bool option \<Rightarrow> double" where
  "computeTotalRevenue64 syntageMonthly placesScore bureauScore tenureMonths taxCompliance
     facebookFans instagramFollowers twilioIdentityMatch twilioWhatsapp twilioSimSwap =
   (if strict_eq syntageMonthly (dbl 0) then dbl 0
    else
      let placesBoost = fadd (dbl 1) (fmul (fdiv placesScore (dbl 100)) (dbl 0.20));
          facebookBoost =
            (case facebookFans of None \<Rightarrow> dbl 0
             | Some f \<Rightarrow> if fge f (dbl 5000) then dbl 0.08
                         else if fge f (dbl 1000) then dbl 0.05 else dbl 0.02);
          instagramBoost =
            (case instagramFollowers of None \<Rightarrow> dbl 0
             | Some f \<Rightarrow> if fge f (dbl 5000) then dbl 0.07
                         else if fge f (dbl 1000) then dbl 0.04 else dbl 0.01);
          socialBoost = fadd (fadd (dbl 1) facebookBoost) instagramBoost;
          identityBoost = (if twilioIdentityMatch = Some True then dbl 1.05 else dbl 1.0);
          whatsappBoost = (if twilioWhatsapp = Some True then dbl 1.03 else dbl 1.0);
          simSwapPenalty = (if twilioSimSwap = Some True then dbl 0.90 else dbl 1.0);
          bureauMultiplier =
            (case bureauScore of None \<Rightarrow> dbl 1.0
             | Some b \<Rightarrow> if fgt b (dbl 700) then dbl 1.10
                         else if fgt b (dbl 600) then dbl 1.0 else dbl 0.90);
          tenureMultiplier =
            (case tenureMonths of None \<Rightarrow> dbl 1.0
             | Some t \<Rightarrow> if fgt t (dbl 24) then dbl 1.05
                         else if flt t (dbl 6) then dbl 0.95 else dbl 1.0);
          complianceMultiplier = (if taxCompliance then dbl 1.0 else dbl 0.80)
      in Math_round64
           (fmul (fmul (fmul (fmul (fmul (fmul (fmul (fmul syntageMonthly placesBoost)
              socialBoost) identityBoost) whatsappBoost) simSwapPenalty) bureauMultiplier)
              tenureMultiplier) complianceMultiplier))"

section \<open>Credit offer calculator (computeCreditOffer)\<close>

definition computeCreditOffer ::
  "number \<Rightarrow> number option \<Rightarrow> number \<Rightarrow> bool \<Rightarrow> bool \<Rightarrow> CreditOffer" where
  "computeCreditOffer baseRevenue bureauScore dataSourceCount hasSocial hasFiscal =
     (let multiplier = (if hasFiscal then 2.0 else if hasSocial then 1.4 else 1.2);
          approvedAmount = Math_round ((baseRevenue * multiplier) / 1000) * 1000;
          rate =
            (if bureauScore \<noteq> None \<and> the bureauScore > 700 then 0.030
             else if bureauScore \<noteq> None \<and> the bureauScore > 600 then 0.034
             else 0.038);
          installments = (12 :: int);
          monthlyPayment =
            Math_round ((approvedAmount * rate) / (1 - Math_pow (1 + rate) (- installments)));
          withholdingAmount = Math_round (monthlyPayment * 0.20);
          directDebitAmount = monthlyPayment - withholdingAmount
      in \<lparr> approved_amount = approvedAmount,
           interest_rate_monthly = rate,
           installments = of_int installments,
           monthly_payment = monthlyPayment,
           withholding_amount = withholdingAmount,
           direct_debit_amount = directDebitAmount,
           currency = ''MXN'' \<rparr>)"

text \<open>
  The same function in binary floating point, operation by operation; \<open>pow\<close> is the
  \<^verbatim>\<open>Math.pow\<close> of the implementation.
\<close>

record CreditOffer64 =
  approved_amount64 :: double
  interest_rate_monthly64 :: double
  installments64 :: double
  monthly_payment64 :: double
  withholding_amount64 :: double
  direct_debit_amount64 :: double
  currency64 :: string

definition computeCreditOffer64 ::
  "(double \<Rightarrow> double \<Rightarrow> double) \<Rightarrow> double \<Rightarrow> double option \<Rightarrow> double \<Rightarrow> bool \<Rightarrow> bool \<Rightarrow>
   CreditOffer64" where
  "computeCreditOffer64 pow baseRevenue bureauScore dataSourceCount hasSocial hasFiscal =
     (let multiplier = (if hasFiscal then dbl 2.0 else if hasSocial then dbl 1.4 else dbl 1.2);
          approvedAmount =
            fmul (Math_round64 (fdiv (fmul baseRevenue multiplier) (dbl 1000))) (dbl 1000);
          rate =
            (if bureauScore \<noteq> None \<and> fgt (the bureauScore) (dbl 700) then dbl 0.030
             else if bureauScore \<noteq> None \<and> fgt (the bureauScore) (dbl 600) then dbl 0.034
             else dbl 0.038);
          installments = dbl 12;
          monthlyPayment =
            Math_round64
              (fdiv (fmul approvedAmount rate)
                 (fsub (dbl 1) (pow (fadd (dbl 1) rate) (fneg installments))));
          withholdingAmount = Math_round64 (fmul monthlyPayment (dbl 0.20));
          directDebitAmount = fsub monthlyPayment withholdingAmount
      in \<lparr> approved_amount64 = approvedAmount,
           interest_rate_monthly64 = rate,
           installments64 = installments,
           monthly_payment64 = monthlyPayment,
           withholding_amount64 = withholdingAmount,
           direct_debit_amount64 = directDebitAmount,
           currency64 = ''MXN'' \<rparr>)"

section \<open>Decision resolver\<close>

text \<open>
  The conditional expression at the end of \<^verbatim>\<open>runUnderwriting\<close> that maps the total
  revenue and the configured threshold to the status.
\<close>

definition decisionStatus :: "number \<Rightarrow> number \<Rightarrow> DecisionStatus" where
  "decisionStatus totalRevenue threshold =
     (if totalRevenue \<ge> threshold then APPROVED
      else if totalRevenue > 0 then MANUAL_REVIEW
      else REJECTED)"

section \<open>Adapters, time-outs and exceptions\<close>

text \<open>
  An adapter call returns a promise. What the orchestrator sees of it is its state at the
  moment the timer of \<^verbatim>\<open>withTimeout\<close> fires: fulfilled with a value, rejected with an
  error, or still pending. A promise is therefore a function from the duration of the
  timer (in milliseconds) to that state. A computation that may throw has the type
  \<open>string + 'a\<close>, \<open>Inl\<close> carrying the error.
\<close>

datatype 'a Settled = Fulfilled 'a | RejectedWith string | StillPending

type_synonym 'a Promise = "number \<Rightarrow> 'a Settled"

definition withTimeout :: "'a Promise \<Rightarrow> number \<Rightarrow> string \<Rightarrow> string + 'a" where
  "withTimeout promise ms message =
     (case promise ms of
        Fulfilled v \<Rightarrow> Inr v
      | RejectedWith err \<Rightarrow> Inl err
      | StillPending \<Rightarrow> Inl message)"

definition and_then :: "string + 'a \<Rightarrow> ('a \<Rightarrow> string + 'b) \<Rightarrow> string + 'b" where
  "and_then m f = (case m of Inl err \<Rightarrow> Inl err | Inr v \<Rightarrow> f v)"

definition try_catch :: "string + 'a \<Rightarrow> (string \<Rightarrow> string + 'a) \<Rightarrow> string + 'a" where
  "try_catch body handler = (case body of Inl err \<Rightarrow> handler err | Inr v \<Rightarrow> Inr v)"

text \<open>The seven provider clients, as the orchestrator calls them.\<close>

record Adapters =
  getRevenueData :: "string \<Rightarrow> SyntageRevenueData Promise"
  getPlacesData :: "string \<Rightarrow> PlacesResult Promise"
  getPageData :: "string \<Rightarrow> FacebookResult Promise"
  getProfileData :: "string \<Rightarrow> InstagramResult Promise"
  verifyPhone :: "string \<Rightarrow> string \<Rightarrow> string \<Rightarrow> TwilioResult Promise"
  getScore :: "string \<Rightarrow> BureauResult Promise"
  getMerchantData :: "string \<Rightarrow> PlatformResult Promise"

section \<open>Aggregation orchestrator (runUnderwriting)\<close>

text \<open>
  Each of the seven blocks of \<^verbatim>\<open>runUnderwriting\<close> declares local variables, calls its
  adapter under \<^verbatim>\<open>withTimeout\<close> inside \<^verbatim>\<open>try\<close>, and assigns the variables. No block
  reads the variables of another one, so a block is a computation that yields the record
  of its own variables. The only statement of a \<^verbatim>\<open>try\<close> body that can throw is the
  awaited call, which comes first: when the handler runs, the variables still hold their
  initial values.
\<close>

record SyntageVars =
  syntageResult :: "SyntageResult option"
  syntageMonthlyRevenue :: number
  syntageAvailable :: bool
  syntageCompliance :: bool

record PlacesVars =
  placesResult :: "PlacesResult option"
  placesScore :: number
  placesAvailable :: bool

record FacebookVars =
  facebookResult :: "FacebookResult option"
  facebookFanCount :: "number option"
  facebookAvailable :: bool

record InstagramVars =
  instagramResult :: "InstagramResult option"
  instagramFollowers :: "number option"
  instagramAvailable :: bool

record TwilioVars =
  twilioResult :: "TwilioResult option"
  twilioIdentityMatch :: "bool option"
  twilioWhatsapp :: "bool option"
  twilioSimSwap :: "bool option"
  twilioAvailable :: bool

record BureauVars =
  bureauResult :: "BureauResult option"
  bureauScore :: "number option"
  bureauAvailable :: bool

record PlatformVars =
  platformResult :: "PlatformResult option"
  platformGmv :: "number option"
  tenureMonths :: "number option"
  platformAvailable :: bool

text \<open>The "not connected" results the orchestrator builds itself.\<close>

definition places_not_connected :: PlacesResult where
  "places_not_connected =
     \<lparr> pl_connected = False, pl_business_name = None, pl_rating = None,
       pl_total_review_count = None, pl_price_level_index = None, pl_is_verified = None,
       pl_categories = None, pl_has_website = None, pl_business_status = None,
       pl_signals_score = None \<rparr>"

definition facebook_not_connected :: FacebookResult where
  "facebook_not_connected =
     \<lparr> fb_connected = False, fb_page_name = None, fb_fan_count = None, fb_rating = None \<rparr>"

definition instagram_not_connected :: InstagramResult where
  "instagram_not_connected =
     \<lparr> ig_connected = False, ig_username = None, ig_followers_count = None,
       ig_media_count = None \<rparr>"

definition twilio_not_connected :: TwilioResult where
  "twilio_not_connected =
     \<lparr> tw_connected = False, tw_identity_match = None, tw_whatsapp_business = None,
       tw_line_type = None, tw_sim_swap_detected = None \<rparr>"

text \<open>The declarations at the head of each block.\<close>

definition syntage_initial :: SyntageVars where
  "syntage_initial =
     \<lparr> syntageResult = None, syntageMonthlyRevenue = 0, syntageAvailable = False,
       syntageCompliance = True \<rparr>"

definition places_initial :: PlacesVars where
  "places_initial = \<lparr> placesResult = None, placesScore = 0, placesAvailable = False \<rparr>"

definition facebook_initial :: FacebookVars where
  "facebook_initial =
     \<lparr> facebookResult = None, facebookFanCount = None, facebookAvailable = False \<rparr>"

definition instagram_initial :: InstagramVars where
  "instagram_initial =
     \<lparr> instagramResult = None, instagramFollowers = None, instagramAvailable = False \<rparr>"

definition twilio_initial :: TwilioVars where
  "twilio_initial =
     \<lparr> twilioResult = None, twilioIdentityMatch = None, twilioWhatsapp = None,
       twilioSimSwap = None, twilioAvailable = False \<rparr>"

definition bureau_initial :: BureauVars where
  "bureau_initial = \<lparr> bureauResult = None, bureauScore = None, bureauAvailable = False \<rparr>"

definition platform_initial :: PlatformVars where
  "platform_initial =
     \<lparr> platformResult = None, platformGmv = None, tenureMonths = None,
       platformAvailable = False \<rparr>"

text \<open>Block 1, tax/revenue registry.\<close>

definition syntage_block :: "Env \<Rightarrow> Adapters \<Rightarrow> ApplicationDoc \<Rightarrow> string + SyntageVars" where
  "syntage_block env ad application =
     try_catch
       (and_then
          (withTimeout (getRevenueData ad (merchant_id application)) (SYNTAGE_TIMEOUT_MS env)
             ''Syntage fetch timed out'')
          (\<lambda>raw.
             let monthlyRevenue = raw_annual_revenue raw / 12
             in Inr \<lparr> syntageResult = Some
                        \<lparr> sy_merchant_id = raw_merchant_id raw,
                          sy_annual_revenue = raw_annual_revenue raw,
                          sy_monthly_revenue = monthlyRevenue,
                          sy_months_active = raw_months_active raw,
                          sy_tax_regime = raw_tax_regime raw,
                          sy_cfdi_count_last_12m = raw_cfdi_count_last_12m raw,
                          sy_tax_compliance = Some (nullish (raw_tax_compliance raw) True) \<rparr>,
                      syntageMonthlyRevenue = monthlyRevenue,
                      syntageAvailable = True,
                      syntageCompliance = nullish (raw_tax_compliance raw) True \<rparr>))
       (\<lambda>err. Inr syntage_initial)"

text \<open>Block 2, business listing (only with a listing URL).\<close>

definition places_block :: "Adapters \<Rightarrow> string \<Rightarrow> string + PlacesVars" where
  "places_block ad mapsUrl =
     (if truthy_string mapsUrl then
        try_catch
          (and_then (withTimeout (getPlacesData ad mapsUrl) 10000 ''Google Places fetch timed out'')
             (\<lambda>places.
                Inr (if pl_connected places
                     then \<lparr> placesResult = Some places,
                            placesScore = nullish (pl_signals_score places) 0,
                            placesAvailable = True \<rparr>
                     else places_initial \<lparr> placesResult := Some places \<rparr>)))
          (\<lambda>err. Inr (places_initial \<lparr> placesResult := Some places_not_connected \<rparr>))
      else Inr (places_initial \<lparr> placesResult := Some places_not_connected \<rparr>))"

text \<open>Block 3, first social platform (with a token, or in demo mode).\<close>

definition facebook_block :: "Env \<Rightarrow> Adapters \<Rightarrow> string \<Rightarrow> string + FacebookVars" where
  "facebook_block env ad facebookToken =
     (if truthy_string facebookToken \<or> DEMO_MODE env then
        try_catch
          (and_then (withTimeout (getPageData ad facebookToken) 8000 ''Facebook fetch timed out'')
             (\<lambda>fb.
                Inr (if fb_connected fb
                     then \<lparr> facebookResult = Some fb,
                            facebookFanCount = fb_fan_count fb,
                            facebookAvailable = True \<rparr>
                     else facebook_initial \<lparr> facebookResult := Some fb \<rparr>)))
          (\<lambda>err. Inr (facebook_initial \<lparr> facebookResult := Some facebook_not_connected \<rparr>))
      else Inr (facebook_initial \<lparr> facebookResult := Some facebook_not_connected \<rparr>))"

text \<open>Block 4, second social platform (its own token, else the first platform's).\<close>

definition instagram_block ::
  "Env \<Rightarrow> Adapters \<Rightarrow> string \<Rightarrow> string \<Rightarrow> string + InstagramVars" where
  "instagram_block env ad instagramToken facebookToken =
     (if truthy_string instagramToken \<or> truthy_string facebookToken \<or> DEMO_MODE env then
        try_catch
          (and_then
             (withTimeout
                (getProfileData ad
                   (if truthy_string instagramToken then instagramToken else facebookToken))
                8000 ''Instagram fetch timed out'')
             (\<lambda>ig.
                Inr (if ig_connected ig
                     then \<lparr> instagramResult = Some ig,
                            instagramFollowers = ig_followers_count ig,
                            instagramAvailable = True \<rparr>
                     else instagram_initial \<lparr> instagramResult := Some ig \<rparr>)))
          (\<lambda>err. Inr (instagram_initial \<lparr> instagramResult := Some instagram_not_connected \<rparr>))
      else Inr (instagram_initial \<lparr> instagramResult := Some instagram_not_connected \<rparr>))"

text \<open>Block 5, phone intelligence (a placeholder number when the form has none).\<close>

definition twilio_block ::
  "Adapters \<Rightarrow> string \<Rightarrow> string \<Rightarrow> string \<Rightarrow> string + TwilioVars" where
  "twilio_block ad phone firstName lastName =
     try_catch
       (and_then
          (withTimeout
             (verifyPhone ad (if truthy_string phone then phone else ''+525500000000'')
                firstName lastName)
             8000 ''Twilio Lookup timed out'')
          (\<lambda>twilio.
             Inr (if tw_connected twilio
                  then \<lparr> twilioResult = Some twilio,
                         twilioIdentityMatch = tw_identity_match twilio,
                         twilioWhatsapp = tw_whatsapp_business twilio,
                         twilioSimSwap = tw_sim_swap_detected twilio,
                         twilioAvailable = True \<rparr>
                  else twilio_initial \<lparr> twilioResult := Some twilio \<rparr>)))
       (\<lambda>err. Inr (twilio_initial \<lparr> twilioResult := Some twilio_not_connected \<rparr>))"

text \<open>Block 7 of the source, credit bureau.\<close>

definition bureau_block :: "Adapters \<Rightarrow> string \<Rightarrow> string + BureauVars" where
  "bureau_block ad taxId =
     try_catch
       (and_then (withTimeout (getScore ad taxId) 8000 ''Bureau fetch timed out'')
          (\<lambda>bureau.
             Inr (if bu_bureau_score bureau \<noteq> None
                  then \<lparr> bureauResult = Some bureau,
                         bureauScore = bu_bureau_score bureau,
                         bureauAvailable = True \<rparr>
                  else bureau_initial \<lparr> bureauResult := Some bureau \<rparr>)))
       (\<lambda>err. Inr bureau_initial)"

text \<open>Block 8 of the source, internal platform.\<close>

definition platform_block :: "Adapters \<Rightarrow> ApplicationDoc \<Rightarrow> string + PlatformVars" where
  "platform_block ad application =
     try_catch
       (and_then
          (withTimeout (getMerchantData ad (merchant_id application)) 5000
             ''Platform fetch timed out'')
          (\<lambda>platform.
             Inr (if pf_avg_platform_gmv_6m platform \<noteq> None
                  then \<lparr> platformResult = Some platform,
                         platformGmv = pf_avg_platform_gmv_6m platform,
                         tenureMonths = pf_tenure_months platform,
                         platformAvailable = True \<rparr>
                  else platform_initial \<lparr> platformResult := Some platform \<rparr>)))
       (\<lambda>err. Inr platform_initial)"

text \<open>
  \<^verbatim>\<open>buildReason\<close>: the parameter object repeats the local variables under their own
  names, so the function takes the records of the blocks. The result stands for the
  sentences joined by one blank.
\<close>

definition twilioNotes :: "TwilioVars \<Rightarrow> TwilioNote list" where
  "twilioNotes tw =
     (if twilioIdentityMatch tw = Some True then [IdentityVerified] else []) @
     (if twilioWhatsapp tw = Some True then [WhatsappBusinessActive] else []) @
     (if twilioSimSwap tw = Some True then [SimSwapDetected] else [])"

definition buildReason ::
  "SyntageVars \<Rightarrow> PlacesVars \<Rightarrow> FacebookVars \<Rightarrow> InstagramVars \<Rightarrow> TwilioVars \<Rightarrow>
   BureauVars \<Rightarrow> PlatformVars \<Rightarrow> ReasonPart list" where
  "buildReason sy pl fb ig tw bu pf =
     [ManualReviewHeader] @
     (if syntageAvailable sy
      then [SatSales (syntageMonthlyRevenue sy) (\<not> syntageCompliance sy)]
      else [SatUnavailable]) @
     (if placesAvailable pl then [PlacesScorePart (placesScore pl)] else []) @
     (if facebookAvailable fb \<and> facebookFanCount fb \<noteq> None
      then [FacebookFollowers (the (facebookFanCount fb))] else []) @
     (if instagramAvailable ig \<and> instagramFollowers ig \<noteq> None
      then [InstagramFollowers (the (instagramFollowers ig))] else []) @
     (if twilioAvailable tw \<and> length (twilioNotes tw) > 0
      then [TwilioLookup (twilioNotes tw)] else []) @
     (if bureauAvailable bu \<and> bureauScore bu \<noteq> None
      then [BureauScorePart (the (bureauScore bu))] else []) @
     (if platformAvailable pf \<and> platformGmv pf \<noteq> None
      then [PlatformGmv (the (platformGmv pf))] else [])"

text \<open>
  Steps 9 to 11 and the returned object: the list of available sources, the total, the
  credit offer, the status and the payload.
\<close>

definition consolidate ::
  "Env \<Rightarrow> SyntageVars \<Rightarrow> PlacesVars \<Rightarrow> FacebookVars \<Rightarrow> InstagramVars \<Rightarrow> TwilioVars \<Rightarrow>
   BureauVars \<Rightarrow> PlatformVars \<Rightarrow> UnderwritingDecision" where
  "consolidate env sy pl fb ig tw bu pf =
     (let dataSources =
            (if syntageAvailable sy then [''syntage''] else []) @
            (if placesAvailable pl then [''google_places''] else []) @
            (if facebookAvailable fb then [''facebook''] else []) @
            (if instagramAvailable ig then [''instagram''] else []) @
            (if twilioAvailable tw then [''twilio''] else []) @
            (if bureauAvailable bu then [''bureau''] else []) @
            (if platformAvailable pf then [''platform''] else []);
          totalRevenue =
            computeTotalRevenue (syntageMonthlyRevenue sy) (placesScore pl) (bureauScore bu)
              (tenureMonths pf) (syntageCompliance sy) (facebookFanCount fb)
              (instagramFollowers ig) (twilioIdentityMatch tw) (twilioWhatsapp tw)
              (twilioSimSwap tw);
          preApprovedBase =
            nullish (Option.bind (platformResult pf) pf_pre_approved_amount) 50000;
          hasSocial = (placesAvailable pl \<or> facebookAvailable fb \<or> instagramAvailable ig);
          hasFiscal = syntageAvailable sy;
          creditOffer =
            computeCreditOffer preApprovedBase (bureauScore bu) (real (length dataSources))
              hasSocial hasFiscal;
          decided = decisionStatus totalRevenue (APPROVAL_THRESHOLD env)
      in \<lparr> status = decided,
           payload =
             \<lparr> credit_offer = Some creditOffer,
               reason = buildReason sy pl fb ig tw bu pf,
               syntage_monthly_revenue = syntageMonthlyRevenue sy,
               syntage_tax_compliance = syntageCompliance sy,
               syntage_cfdi_count = Option.bind (syntageResult sy) sy_cfdi_count_last_12m,
               syntage_tax_regime = Option.bind (syntageResult sy) sy_tax_regime,
               places_signals_score = placesScore pl,
               places_rating = Option.bind (placesResult pl) pl_rating,
               places_review_count = Option.bind (placesResult pl) pl_total_review_count,
               facebook_fan_count = facebookFanCount fb,
               facebook_rating = Option.bind (facebookResult fb) fb_rating,
               instagram_followers = instagramFollowers ig,
               instagram_media_count = Option.bind (instagramResult ig) ig_media_count,
               twilio_identity_match = twilioIdentityMatch tw,
               twilio_whatsapp_business = twilioWhatsapp tw,
               twilio_sim_swap_detected = twilioSimSwap tw,
               twilio_line_type = Option.bind (twilioResult tw) tw_line_type,
               bureau_score = bureauScore bu,
               platform_gmv_6m = platformGmv pf,
               platform_tenure_months = tenureMonths pf,
               total_revenue = totalRevenue,
               threshold_used = APPROVAL_THRESHOLD env,
               data_sources = dataSources \<rparr>,
           syntage_result = syntageResult sy,
           places_result = placesResult pl,
           facebook_result = facebookResult fb,
           instagram_result = instagramResult ig,
           twilio_result = twilioResult tw,
           bureau_result = bureauResult bu,
           platform_result = platformResult pf \<rparr>)"

text \<open>\<^verbatim>\<open>application.form_data?.field ?? ""\<close>\<close>

definition form_field :: "(FormData \<Rightarrow> string option) \<Rightarrow> ApplicationDoc \<Rightarrow> string" where
  "form_field field application = nullish (Option.bind (form_data application) field) []"

text \<open>
  \<^verbatim>\<open>const [firstName, ...lastParts] = legalName.trim().split(" ")\<close> and
  \<^verbatim>\<open>lastName = lastParts.join(" ")\<close>
\<close>

definition firstNameOf :: "string \<Rightarrow> string" where
  "firstNameOf legalName = (case split_space (trim legalName) of [] \<Rightarrow> [] | n # ns \<Rightarrow> n)"

definition lastNameOf :: "string \<Rightarrow> string" where
  "lastNameOf legalName =
     join_space (case split_space (trim legalName) of [] \<Rightarrow> [] | n # ns \<Rightarrow> ns)"

definition runUnderwriting ::
  "Env \<Rightarrow> Adapters \<Rightarrow> ApplicationDoc \<Rightarrow> string + UnderwritingDecision" where
  "runUnderwriting env ad application =
     (let taxId = form_field fd_tax_id application;
          mapsUrl = form_field fd_google_business_url application;
          facebookToken = form_field fd_facebook_access_token application;
          instagramToken = form_field fd_instagram_access_token application;
          phone = form_field fd_phone application;
          legalName = form_field fd_legal_name application;
          firstName = firstNameOf legalName;
          lastName = lastNameOf legalName
      in and_then (syntage_block env ad application) (\<lambda>sy.
         and_then (places_block ad mapsUrl) (\<lambda>pl.
         and_then (facebook_block env ad facebookToken) (\<lambda>fb.
         and_then (instagram_block env ad instagramToken facebookToken) (\<lambda>ig.
         and_then (twilio_block ad phone firstName lastName) (\<lambda>tw.
         and_then (bureau_block ad taxId) (\<lambda>bu.
         and_then (platform_block ad application) (\<lambda>pf.
         Inr (consolidate env sy pl fb ig tw bu pf)))))))))"

section \<open>The factors of the scoring formula, as the specification words them\<close>

definition listings_boost :: "number \<Rightarrow> number" where
  "listings_boost score = 1 + (score / 100) * 0.20"


definition instagram_tier :: "number option \<Rightarrow> number" where
  "instagram_tier followers =
     (case followers of None \<Rightarrow> 0
      | Some f \<Rightarrow> if f \<ge> 5000 then 0.07 else if f \<ge> 1000 then 0.04 else 0.01)"


definition identity_boost :: "bool option \<Rightarrow> number" where
  "identity_boost m = (if m = Some True then 1.05 else 1.0)"

definition messaging_boost :: "bool option \<Rightarrow> number" where
  "messaging_boost w = (if w = Some True then 1.03 else 1.0)"

definition sim_swap_penalty :: "bool option \<Rightarrow> number" where
  "sim_swap_penalty s = (if s = Some True then 0.90 else 1.0)"

definition bureau_multiplier :: "number option \<Rightarrow> number" where
  "bureau_multiplier b =
     (case b of None \<Rightarrow> 1.0
      | Some s \<Rightarrow> if s > 700 then 1.10 else if s > 600 then 1.0 else 0.90)"

definition tenure_multiplier :: "number option \<Rightarrow> number" where
  "tenure_multiplier t =
     (case t of None \<Rightarrow> 1.0
      | Some m \<Rightarrow> if m > 24 then 1.05 else if m < 6 then 0.95 else 1.0)"

definition compliance_multiplier :: "bool \<Rightarrow> number" where
  "compliance_multiplier c = (if c then 1.0 else 0.80)"

text \<open>
  The Facebook tier as the specification words it, a function of the connection and of the
  follower count: 0.08 from 5,000 followers, 0.05 from 1,000, 0.02 otherwise when
  connected.
\<close>

definition facebook_tier_connected :: "bool \<Rightarrow> number option \<Rightarrow> number" where
  "facebook_tier_connected is_connected fans =
     (if \<not> is_connected then 0
      else if fans \<noteq> None \<and> the fans \<ge> 5000 then 0.08
      else if fans \<noteq> None \<and> the fans \<ge> 1000 then 0.05
      else 0.02)"

text \<open>
  The factors in binary floating point. A platform tier is a function of the follower
  count that reaches the formula: no tier without a count.
\<close>

definition listings_boost64 :: "double \<Rightarrow> double" where
  "listings_boost64 score = fadd (dbl 1) (fmul (fdiv score (dbl 100)) (dbl 0.20))"

definition facebook_tier64 :: "double option \<Rightarrow> double" where
  "facebook_tier64 fans =
     (case fans of None \<Rightarrow> dbl 0
      | Some f \<Rightarrow> if fge f (dbl 5000) then dbl 0.08
                  else if fge f (dbl 1000) then dbl 0.05 else dbl 0.02)"

definition instagram_tier64 :: "double option \<Rightarrow> double" where
  "instagram_tier64 followers =
     (case followers of None \<Rightarrow> dbl 0
      | Some f \<Rightarrow> if fge f (dbl 5000) then dbl 0.07
                  else if fge f (dbl 1000) then dbl 0.04 else dbl 0.01)"

definition social_boost64 :: "double option \<Rightarrow> double option \<Rightarrow> double" where
  "social_boost64 fans followers =
     fadd (fadd (dbl 1) (facebook_tier64 fans)) (instagram_tier64 followers)"

definition identity_boost64 :: "bool option \<Rightarrow> double" where
  "identity_boost64 m = (if m = Some True then dbl 1.05 else dbl 1.0)"

definition messaging_boost64 :: "bool option \<Rightarrow> double" where
  "messaging_boost64 w = (if w = Some True then dbl 1.03 else dbl 1.0)"

definition sim_swap_penalty64 :: "bool option \<Rightarrow> double" where
  "sim_swap_penalty64 s = (if s = Some True then dbl 0.90 else dbl 1.0)"

definition bureau_multiplier64 :: "double option \<Rightarrow> double" where
  "bureau_multiplier64 b =
     (case b of None \<Rightarrow> dbl 1.0
      | Some s \<Rightarrow> if fgt s (dbl 700) then dbl 1.10
                  else if fgt s (dbl 600) then dbl 1.0 else dbl 0.90)"

definition tenure_multiplier64 :: "double option \<Rightarrow> double" where
  "tenure_multiplier64 t =
     (case t of None \<Rightarrow> dbl 1.0
      | Some m \<Rightarrow> if fgt m (dbl 24) then dbl 1.05
                  else if flt m (dbl 6) then dbl 0.95 else dbl 1.0)"

definition compliance_multiplier64 :: "bool \<Rightarrow> double" where
  "compliance_multiplier64 c = (if c then dbl 1.0 else dbl 0.80)"

section \<open>The signals table, as the specification words it\<close>

text \<open>
  The table gives the rating 25, 20 or 12 points from 4.5, 4.0 or 3.5 upwards and 5 points
  otherwise; review volume 20, 15, 10 or 5 points from 200, 100, 50 or 10 reviews upwards;
  10 points each for a verified listing, a website, the status OPERATIONAL and a commercial
  category; 5 points for a price tier of 3 or more.
\<close>

definition spec_rating_points :: "number option \<Rightarrow> number" where
  "spec_rating_points rating =
     (case rating of
        Some r \<Rightarrow> if r \<ge> 4.5 then 25 else if r \<ge> 4.0 then 20 else if r \<ge> 3.5 then 12 else 5
      | None \<Rightarrow> 5)"

definition spec_review_points :: "number option \<Rightarrow> number" where
  "spec_review_points reviews =
     (case reviews of
        Some n \<Rightarrow> if n \<ge> 200 then 20 else if n \<ge> 100 then 15 else if n \<ge> 50 then 10
                  else if n \<ge> 10 then 5 else 0
      | None \<Rightarrow> 0)"

definition spec_price_points :: "number option \<Rightarrow> number" where
  "spec_price_points tier = (case tier of Some t \<Rightarrow> if t \<ge> 3 then 5 else 0 | None \<Rightarrow> 0)"

definition spec_signals_sum :: "PlacesResult \<Rightarrow> number" where
  "spec_signals_sum data =
     spec_rating_points (pl_rating data) +
     spec_review_points (pl_total_review_count data) +
     (if pl_is_verified data = Some True then 10 else 0) +
     (if pl_has_website data = Some True then 10 else 0) +
     (if pl_business_status data = Some ''OPERATIONAL'' then 10 else 0) +
     (if hasCommercialType data then 10 else 0) +
     spec_price_points (pl_price_level_index data)"

section \<open>The total as a function of the seven source results\<close>


section \<open>Concrete inputs\<close>

text \<open>
  The demo answers of the provider clients (their \<^verbatim>\<open>DEMO_STUB\<close> constants); an accented
  letter is written as its two bytes.
\<close>

definition syntage_stub :: SyntageRevenueData where
  "syntage_stub =
     \<lparr> raw_merchant_id = Some ''DEMO-MERCHANT'', raw_annual_revenue = 720000,
       raw_months_active = Some 36, raw_currency = Some ''MXN'',
       raw_last_updated = Some ''2025-01-01T00:00:00.000Z'',
       raw_tax_regime = Some (''R'' @ [CHR 0xC3, CHR 0xA9] @ ''gimen Simplificado de Confianza''),
       raw_cfdi_count_last_12m = Some 847, raw_tax_compliance = Some True \<rparr>"

definition places_stub :: PlacesResult where
  "places_stub =
     \<lparr> pl_connected = True, pl_business_name = Some ''Los Aguacates'', pl_rating = Some 4.2,
       pl_total_review_count = Some 143, pl_price_level_index = Some 2,
       pl_is_verified = Some True,
       pl_categories = Some [''Mexican restaurant'', ''Taquer'' @ [CHR 0xC3, CHR 0xAD] @ ''a''],
       pl_has_website = Some False, pl_business_status = Some ''OPERATIONAL'',
       pl_signals_score = Some 72 \<rparr>"

definition twilio_stub :: TwilioResult where
  "twilio_stub =
     \<lparr> tw_connected = True, tw_identity_match = Some True, tw_whatsapp_business = Some True,
       tw_line_type = Some ''mobile'', tw_sim_swap_detected = Some False \<rparr>"

definition bureau_stub :: BureauResult where
  "bureau_stub = \<lparr> bu_bureau_score = Some 720, bu_active_debt_amount = Some 0 \<rparr>"

definition platform_stub :: PlatformResult where
  "platform_stub =
     \<lparr> pf_avg_platform_gmv_6m = Some 900000, pf_tenure_months = Some 36,
       pf_pre_approved_amount = Some 50000 \<rparr>"

text \<open>A listing with no rating and no other signal, and one with every signal at its best.\<close>

definition unrated_listing :: PlacesResult where
  "unrated_listing = places_not_connected \<lparr> pl_connected := True \<rparr>"

definition best_listing :: PlacesResult where
  "best_listing =
     \<lparr> pl_connected = True, pl_business_name = Some ''La Esquina'', pl_rating = Some 4.8,
       pl_total_review_count = Some 950, pl_price_level_index = Some 4,
       pl_is_verified = Some True, pl_categories = Some [''Bakery''],
       pl_has_website = Some True, pl_business_status = Some ''OPERATIONAL'',
       pl_signals_score = None \<rparr>"

text \<open>Configurations: the default threshold of 50,000, and a threshold of zero.\<close>

definition default_env :: Env where
  "default_env = \<lparr> DEMO_MODE = False, APPROVAL_THRESHOLD = 50000, SYNTAGE_TIMEOUT_MS = 10000 \<rparr>"

definition zero_threshold_env :: Env where
  "zero_threshold_env = default_env \<lparr> APPROVAL_THRESHOLD := 0 \<rparr>"

definition sample_application :: ApplicationDoc where
  "sample_application =
     \<lparr> app_id = ''a-1'', merchant_id = ''m-1'',
       form_data = Some
         \<lparr> fd_legal_name = Some ''Ana Lopez Ruiz'', fd_tax_id = Some ''LORA800101AB1'',
           fd_phone = Some ''+525512345678'',
           fd_google_business_url = Some ''https://maps.google.com/?cid=123'',
           fd_facebook_access_token = None, fd_instagram_access_token = None \<rparr> \<rparr>"

text \<open>Adapters none of which answers before its time-out.\<close>

definition failing_adapters :: Adapters where
  "failing_adapters =
     \<lparr> getRevenueData = (\<lambda>merchantId ms. StillPending),
       getPlacesData = (\<lambda>mapsUrl ms. StillPending),
       getPageData = (\<lambda>token ms. StillPending),
       getProfileData = (\<lambda>token ms. StillPending),
       verifyPhone = (\<lambda>phone firstName lastName ms. StillPending),
       getScore = (\<lambda>taxId ms. StillPending),
       getMerchantData = (\<lambda>merchantId ms. StillPending) \<rparr>"

text \<open>
  The scenario of the specification: revenue 720,000 a year, listings score 72, bureau
  score 720, tenure 36 months, compliant, no social and no phone data.
\<close>

definition scenario_adapters :: Adapters where
  "scenario_adapters =
     failing_adapters
       \<lparr> getRevenueData := (\<lambda>merchantId ms. Fulfilled syntage_stub),
         getPlacesData := (\<lambda>mapsUrl ms. Fulfilled places_stub),
         getScore := (\<lambda>taxId ms. Fulfilled bureau_stub),
         getMerchantData := (\<lambda>merchantId ms. Fulfilled platform_stub) \<rparr>"

text \<open>Every source but the tax/revenue registry answers, favourably.\<close>

definition no_tax_adapters :: Adapters where
  "no_tax_adapters =
     scenario_adapters
       \<lparr> getRevenueData := (\<lambda>merchantId ms. RejectedWith ''Error: connect ECONNREFUSED''),
         verifyPhone := (\<lambda>phone firstName lastName ms. Fulfilled twilio_stub) \<rparr>"

text \<open>The registry answers, with a revenue of zero, of 480,000 and of minus 1,200 a year.\<close>

definition zero_revenue_adapters :: Adapters where
  "zero_revenue_adapters =
     scenario_adapters
       \<lparr> getRevenueData := (\<lambda>merchantId ms. Fulfilled (syntage_stub \<lparr> raw_annual_revenue := 0 \<rparr>)) \<rparr>"

definition low_revenue_adapters :: Adapters where
  "low_revenue_adapters =
     failing_adapters
       \<lparr> getRevenueData :=
           (\<lambda>merchantId ms. Fulfilled (syntage_stub \<lparr> raw_annual_revenue := 480000 \<rparr>)) \<rparr>"

definition negative_revenue_adapters :: Adapters where
  "negative_revenue_adapters =
     failing_adapters
       \<lparr> getRevenueData :=
           (\<lambda>merchantId ms. Fulfilled (syntage_stub \<lparr> raw_annual_revenue := - 1200 \<rparr>)) \<rparr>"

text \<open>
  The registry answers with a body that has the annual revenue and none of the other
  fields the interface declares; no other adapter answers.
\<close>

definition partial_response :: SyntageRevenueData where
  "partial_response =
     \<lparr> raw_merchant_id = None, raw_annual_revenue = 720000, raw_months_active = None,
       raw_currency = None, raw_last_updated = None, raw_tax_regime = None,
       raw_cfdi_count_last_12m = None, raw_tax_compliance = None \<rparr>"

definition partial_response_adapters :: Adapters where
  "partial_response_adapters =
     failing_adapters \<lparr> getRevenueData := (\<lambda>merchantId ms. Fulfilled partial_response) \<rparr>"

text \<open>
  An application with a page token; the registry answers and the page adapter answers
  with a connected page that reports no follower count.
\<close>

definition page_application :: ApplicationDoc where
  "page_application =
     \<lparr> app_id = ''a-3'', merchant_id = ''m-3'',
       form_data = Some
         \<lparr> fd_legal_name = Some ''Eva Cruz'', fd_tax_id = Some ''CUEV850505AB2'',
           fd_phone = Some ''+525598765432'',
           fd_google_business_url = None,
           fd_facebook_access_token = Some ''EAAB-token'',
           fd_instagram_access_token = None \<rparr> \<rparr>"

definition fanless_page :: FacebookResult where
  "fanless_page =
     \<lparr> fb_connected = True, fb_page_name = Some ''Los Aguacates'', fb_fan_count = None,
       fb_rating = None \<rparr>"

definition fanless_page_adapters :: Adapters where
  "fanless_page_adapters =
     failing_adapters
       \<lparr> getRevenueData := (\<lambda>merchantId ms. Fulfilled syntage_stub),
         getPageData := (\<lambda>token ms. Fulfilled fanless_page) \<rparr>"

text \<open>A threshold equal to the total of the scenario, and a second application.\<close>

definition boundary_env :: Env where
  "boundary_env = default_env \<lparr> APPROVAL_THRESHOLD := 79279 \<rparr>"

definition other_application :: ApplicationDoc where
  "other_application =
     \<lparr> app_id = ''a-2'', merchant_id = ''m-2'',
       form_data = Some
         \<lparr> fd_legal_name = Some ''Luis Mora'', fd_tax_id = None,
           fd_phone = None,
           fd_google_business_url = Some ''https://maps.google.com/?cid=456'',
           fd_facebook_access_token = None, fd_instagram_access_token = None \<rparr> \<rparr>"

section \<open>Rounding\<close>



lemma Math_round_integer: "Math_round x \<in> \<int>"
  by (simp add: Math_round_def)

lemma Math_round_near: "\<bar>Math_round x - x\<bar> \<le> 1 / 2"
proof -
  have "of_int \<lfloor>x + 1 / 2\<rfloor> \<le> x + 1 / 2" by (rule of_int_floor_le)
  moreover have "x + 1 / 2 < of_int \<lfloor>x + 1 / 2\<rfloor> + 1" by linarith
  ultimately show ?thesis unfolding Math_round_def by linarith
qed

section \<open>The product form of the total\<close>


lemma computeTotalRevenue_zero_base [simp]:
  "computeTotalRevenue 0 score bureau tenure compliant fans followers idm wa sim = 0"
  by (simp add: computeTotalRevenue_def)











section \<open>The signals score\<close>

lemma ratingPoints_range: "0 \<le> ratingPoints data \<and> ratingPoints data \<le> 25"
  by (simp add: ratingPoints_def)

lemma reviewPoints_range: "0 \<le> reviewPoints data \<and> reviewPoints data \<le> 20"
  by (simp add: reviewPoints_def)

lemma pricePoints_range: "0 \<le> pricePoints data \<and> pricePoints data \<le> 5"
  by (simp add: pricePoints_def)

lemma computeSignalsScore_sum:
  "computeSignalsScore data =
     min (ratingPoints data + reviewPoints data +
          (if truthy_bool (pl_is_verified data) then 10 else 0) +
          (if truthy_bool (pl_has_website data) then 10 else 0) +
          (if pl_business_status data = Some ''OPERATIONAL'' then 10 else 0) +
          (if hasCommercialType data then 10 else 0) +
          pricePoints data) 100"
  by (simp add: computeSignalsScore_def Let_def)

lemma signals_sum_range:
  "0 \<le> ratingPoints data + reviewPoints data +
          (if truthy_bool (pl_is_verified data) then 10 else 0) +
          (if truthy_bool (pl_has_website data) then 10 else 0) +
          (if pl_business_status data = Some ''OPERATIONAL'' then 10 else 0) +
          (if hasCommercialType data then 10 else 0) +
          pricePoints data \<and>
   ratingPoints data + reviewPoints data +
          (if truthy_bool (pl_is_verified data) then 10 else 0) +
          (if truthy_bool (pl_has_website data) then 10 else 0) +
          (if pl_business_status data = Some ''OPERATIONAL'' then 10 else 0) +
          (if hasCommercialType data then 10 else 0) +
          pricePoints data \<le> 90"
  using ratingPoints_range[of data] reviewPoints_range[of data] pricePoints_range[of data]
  by simp

lemma truthy_bool_Some_True: "truthy_bool b = (b = Some True)"
  by (cases b) (simp_all add: truthy_bool_def)

lemma reviewPoints_spec: "reviewPoints data = spec_review_points (pl_total_review_count data)"
  by (cases "pl_total_review_count data")
     (auto simp add: reviewPoints_def spec_review_points_def truthy_number_def)

lemma pricePoints_spec: "pricePoints data = spec_price_points (pl_price_level_index data)"
  by (cases "pl_price_level_index data")
     (auto simp add: pricePoints_def spec_price_points_def truthy_number_def)

lemma ratingPoints_spec:
  "ratingPoints data =
     (if truthy_number (pl_rating data) then spec_rating_points (pl_rating data) else 0)"
  by (cases "pl_rating data")
     (auto simp add: ratingPoints_def spec_rating_points_def truthy_number_def)


section \<open>The blocks of the orchestrator\<close>

lemma syntage_block_returns: "\<exists>sy. syntage_block env ad application = Inr sy"
  by (simp add: syntage_block_def try_catch_def and_then_def Let_def split: sum.splits)

lemma places_block_returns: "\<exists>pl. places_block ad mapsUrl = Inr pl"
  by (simp add: places_block_def try_catch_def and_then_def split: sum.splits)

lemma facebook_block_returns: "\<exists>fb. facebook_block env ad token = Inr fb"
  by (simp add: facebook_block_def try_catch_def and_then_def split: sum.splits)

lemma instagram_block_returns: "\<exists>ig. instagram_block env ad itoken ftoken = Inr ig"
  by (simp add: instagram_block_def try_catch_def and_then_def split: sum.splits)

lemma twilio_block_returns: "\<exists>tw. twilio_block ad phone firstName lastName = Inr tw"
  by (simp add: twilio_block_def try_catch_def and_then_def split: sum.splits)

lemma bureau_block_returns: "\<exists>bu. bureau_block ad taxId = Inr bu"
  by (simp add: bureau_block_def try_catch_def and_then_def split: sum.splits)

lemma platform_block_returns: "\<exists>pf. platform_block ad application = Inr pf"
  by (simp add: platform_block_def try_catch_def and_then_def split: sum.splits)

lemma runUnderwriting_consolidate:
  obtains sy pl fb ig tw bu pf where
    "syntage_block env ad application = Inr sy"
    "places_block ad (form_field fd_google_business_url application) = Inr pl"
    "facebook_block env ad (form_field fd_facebook_access_token application) = Inr fb"
    "instagram_block env ad (form_field fd_instagram_access_token application)
       (form_field fd_facebook_access_token application) = Inr ig"
    "twilio_block ad (form_field fd_phone application)
       (firstNameOf (form_field fd_legal_name application))
       (lastNameOf (form_field fd_legal_name application)) = Inr tw"
    "bureau_block ad (form_field fd_tax_id application) = Inr bu"
    "platform_block ad application = Inr pf"
    "runUnderwriting env ad application = Inr (consolidate env sy pl fb ig tw bu pf)"
proof -
  obtain sy where 1: "syntage_block env ad application = Inr sy"
    using syntage_block_returns by blast
  obtain pl where 2: "places_block ad (form_field fd_google_business_url application) = Inr pl"
    using places_block_returns by blast
  obtain fb where 3:
    "facebook_block env ad (form_field fd_facebook_access_token application) = Inr fb"
    using facebook_block_returns by blast
  obtain ig where 4:
    "instagram_block env ad (form_field fd_instagram_access_token application)
       (form_field fd_facebook_access_token application) = Inr ig"
    using instagram_block_returns by blast
  obtain tw where 5:
    "twilio_block ad (form_field fd_phone application)
       (firstNameOf (form_field fd_legal_name application))
       (lastNameOf (form_field fd_legal_name application)) = Inr tw"
    using twilio_block_returns by blast
  obtain bu where 6: "bureau_block ad (form_field fd_tax_id application) = Inr bu"
    using bureau_block_returns by blast
  obtain pf where 7: "platform_block ad application = Inr pf"
    using platform_block_returns by blast
  have "runUnderwriting env ad application = Inr (consolidate env sy pl fb ig tw bu pf)"
    by (simp add: runUnderwriting_def Let_def and_then_def 1 2 3 4 5 6 7)
  with 1 2 3 4 5 6 7 show thesis by (rule that)
qed

lemma syntage_block_unavailable:
  assumes "\<forall>raw. getRevenueData ad (merchant_id application) (SYNTAGE_TIMEOUT_MS env) \<noteq> Fulfilled raw"
  shows "syntage_block env ad application = Inr syntage_initial"
  using assms
  by (simp add: syntage_block_def try_catch_def and_then_def withTimeout_def split: Settled.splits)

lemma syntage_block_vars:
  assumes "syntage_block env ad application = Inr sy"
  shows "syntageMonthlyRevenue sy =
           (case syntageResult sy of None \<Rightarrow> 0 | Some r \<Rightarrow> sy_monthly_revenue r)"
    and "syntageCompliance sy =
           (case syntageResult sy of None \<Rightarrow> True | Some r \<Rightarrow> nullish (sy_tax_compliance r) True)"
    and "syntageAvailable sy = (syntageResult sy \<noteq> None)"
    and "syntageResult sy = Some r \<Longrightarrow> sy_monthly_revenue r = sy_annual_revenue r / 12"
    and "syntageAvailable sy =
           (\<exists>raw. getRevenueData ad (merchant_id application) (SYNTAGE_TIMEOUT_MS env) = Fulfilled raw)"
    and "getRevenueData ad (merchant_id application) (SYNTAGE_TIMEOUT_MS env) = Fulfilled raw \<Longrightarrow>
           \<exists>r. syntageResult sy = Some r \<and> sy_annual_revenue r = raw_annual_revenue raw"
    and "\<forall>raw. getRevenueData ad (merchant_id application) (SYNTAGE_TIMEOUT_MS env)
               \<noteq> Fulfilled raw \<Longrightarrow> syntageResult sy = None"
  using assms
  by (auto simp add: syntage_block_def try_catch_def and_then_def Let_def syntage_initial_def
      nullish_def withTimeout_def split: sum.splits Settled.splits)

lemma places_block_vars:
  assumes "places_block ad mapsUrl = Inr pl"
  shows "placesScore pl = (case placesResult pl of None \<Rightarrow> 0
        | Some p \<Rightarrow> if pl_connected p then nullish (pl_signals_score p) 0 else 0)"
    and "placesAvailable pl = (case placesResult pl of None \<Rightarrow> False | Some p \<Rightarrow> pl_connected p)"
    and "mapsUrl \<noteq> [] \<Longrightarrow> getPlacesData ad mapsUrl 10000 = Fulfilled p \<Longrightarrow>
           placesResult pl = Some p"
    and "\<forall>p. getPlacesData ad mapsUrl 10000 \<noteq> Fulfilled p \<Longrightarrow> \<not> placesAvailable pl"
    and "mapsUrl = [] \<or> (\<forall>p. getPlacesData ad mapsUrl 10000 \<noteq> Fulfilled p) \<Longrightarrow>
           placesResult pl = Some places_not_connected \<and> \<not> placesAvailable pl"
  using assms
  by (auto simp add: places_block_def try_catch_def and_then_def places_initial_def
      places_not_connected_def withTimeout_def truthy_string_def
      split: sum.splits if_splits Settled.splits)

lemma facebook_block_vars:
  assumes "facebook_block env ad token = Inr fb"
  shows "facebookFanCount fb = (case facebookResult fb of None \<Rightarrow> None
        | Some f \<Rightarrow> if fb_connected f then fb_fan_count f else None)"
    and "facebookAvailable fb =
           (case facebookResult fb of None \<Rightarrow> False | Some f \<Rightarrow> fb_connected f)"
    and "token \<noteq> [] \<or> DEMO_MODE env \<Longrightarrow> getPageData ad token 8000 = Fulfilled f \<Longrightarrow>
           facebookResult fb = Some f"
    and "\<forall>f. getPageData ad token 8000 \<noteq> Fulfilled f \<Longrightarrow> \<not> facebookAvailable fb"
    and "(token = [] \<and> \<not> DEMO_MODE env) \<or> (\<forall>f. getPageData ad token 8000 \<noteq> Fulfilled f) \<Longrightarrow>
           facebookResult fb = Some facebook_not_connected \<and> \<not> facebookAvailable fb"
  using assms
  by (auto simp add: facebook_block_def try_catch_def and_then_def facebook_initial_def
      facebook_not_connected_def withTimeout_def truthy_string_def
      split: sum.splits if_splits Settled.splits)

lemma instagram_block_vars:
  assumes "instagram_block env ad itoken ftoken = Inr ig"
  shows "instagramFollowers ig = (case instagramResult ig of None \<Rightarrow> None
        | Some i \<Rightarrow> if ig_connected i then ig_followers_count i else None)"
    and "instagramAvailable ig =
           (case instagramResult ig of None \<Rightarrow> False | Some i \<Rightarrow> ig_connected i)"
    and "itoken \<noteq> [] \<or> ftoken \<noteq> [] \<or> DEMO_MODE env \<Longrightarrow>
         getProfileData ad (if itoken \<noteq> [] then itoken else ftoken) 8000 = Fulfilled i \<Longrightarrow>
           instagramResult ig = Some i"
    and "\<forall>i. getProfileData ad (if itoken \<noteq> [] then itoken else ftoken) 8000 \<noteq> Fulfilled i \<Longrightarrow>
           \<not> instagramAvailable ig"
    and "(itoken = [] \<and> ftoken = [] \<and> \<not> DEMO_MODE env) \<or>
         (\<forall>i. getProfileData ad (if itoken \<noteq> [] then itoken else ftoken) 8000 \<noteq> Fulfilled i) \<Longrightarrow>
           instagramResult ig = Some instagram_not_connected \<and> \<not> instagramAvailable ig"
  using assms
  by (auto simp add: instagram_block_def try_catch_def and_then_def instagram_initial_def
      instagram_not_connected_def withTimeout_def truthy_string_def
      split: sum.splits if_splits Settled.splits)

lemma twilio_block_vars:
  assumes "twilio_block ad phone firstName lastName = Inr tw"
  shows "twilioIdentityMatch tw = (case twilioResult tw of None \<Rightarrow> None
        | Some t \<Rightarrow> if tw_connected t then tw_identity_match t else None)"
    and "twilioWhatsapp tw = (case twilioResult tw of None \<Rightarrow> None
        | Some t \<Rightarrow> if tw_connected t then tw_whatsapp_business t else None)"
    and "twilioSimSwap tw = (case twilioResult tw of None \<Rightarrow> None
        | Some t \<Rightarrow> if tw_connected t then tw_sim_swap_detected t else None)"
    and "twilioAvailable tw = (case twilioResult tw of None \<Rightarrow> False | Some t \<Rightarrow> tw_connected t)"
    and "verifyPhone ad (if phone \<noteq> [] then phone else ''+525500000000'') firstName lastName 8000
           = Fulfilled t \<Longrightarrow> twilioResult tw = Some t"
    and "\<forall>t. verifyPhone ad (if phone \<noteq> [] then phone else ''+525500000000'') firstName
               lastName 8000 \<noteq> Fulfilled t \<Longrightarrow> \<not> twilioAvailable tw"
    and "\<forall>t. verifyPhone ad (if phone \<noteq> [] then phone else ''+525500000000'') firstName
               lastName 8000 \<noteq> Fulfilled t \<Longrightarrow> twilioResult tw = Some twilio_not_connected"
  using assms
  by (auto simp add: twilio_block_def try_catch_def and_then_def twilio_initial_def
      twilio_not_connected_def withTimeout_def truthy_string_def
      split: sum.splits if_splits Settled.splits)

lemma bureau_block_vars:
  assumes "bureau_block ad taxId = Inr bu"
  shows "bureauScore bu = Option.bind (bureauResult bu) bu_bureau_score"
    and "bureauAvailable bu = (bureauScore bu \<noteq> None)"
    and "getScore ad taxId 8000 = Fulfilled b \<Longrightarrow> bureauResult bu = Some b"
    and "\<forall>b. getScore ad taxId 8000 \<noteq> Fulfilled b \<Longrightarrow> \<not> bureauAvailable bu"
    and "\<forall>b. getScore ad taxId 8000 \<noteq> Fulfilled b \<Longrightarrow> bureauResult bu = None"
  using assms
  by (auto simp add: bureau_block_def try_catch_def and_then_def bureau_initial_def
      withTimeout_def split: sum.splits if_splits Settled.splits)

lemma platform_block_vars:
  assumes "platform_block ad application = Inr pf"
  shows "tenureMonths pf = (case platformResult pf of None \<Rightarrow> None
        | Some q \<Rightarrow> if pf_avg_platform_gmv_6m q \<noteq> None then pf_tenure_months q else None)"
    and "platformAvailable pf = (platformGmv pf \<noteq> None)"
    and "getMerchantData ad (merchant_id application) 5000 = Fulfilled q \<Longrightarrow>
           platformResult pf = Some q"
    and "\<forall>q. getMerchantData ad (merchant_id application) 5000 \<noteq> Fulfilled q \<Longrightarrow>
           \<not> platformAvailable pf"
    and "\<forall>q. getMerchantData ad (merchant_id application) 5000 \<noteq> Fulfilled q \<Longrightarrow>
           platformResult pf = None"
  using assms
  by (auto simp add: platform_block_def try_catch_def and_then_def platform_initial_def
      withTimeout_def split: sum.splits if_splits Settled.splits)

lemma consolidate_fields:
  "status (consolidate env sy pl fb ig tw bu pf) =
     decisionStatus (total_revenue (payload (consolidate env sy pl fb ig tw bu pf)))
       (APPROVAL_THRESHOLD env)"
  "total_revenue (payload (consolidate env sy pl fb ig tw bu pf)) =
     computeTotalRevenue (syntageMonthlyRevenue sy) (placesScore pl) (bureauScore bu)
              (tenureMonths pf) (syntageCompliance sy) (facebookFanCount fb)
              (instagramFollowers ig) (twilioIdentityMatch tw) (twilioWhatsapp tw)
              (twilioSimSwap tw)"
  "syntage_result (consolidate env sy pl fb ig tw bu pf) = syntageResult sy"
  "places_result (consolidate env sy pl fb ig tw bu pf) = placesResult pl"
  "facebook_result (consolidate env sy pl fb ig tw bu pf) = facebookResult fb"
  "instagram_result (consolidate env sy pl fb ig tw bu pf) = instagramResult ig"
  "twilio_result (consolidate env sy pl fb ig tw bu pf) = twilioResult tw"
  "bureau_result (consolidate env sy pl fb ig tw bu pf) = bureauResult bu"
  "platform_result (consolidate env sy pl fb ig tw bu pf) = platformResult pf"
  "reason (payload (consolidate env sy pl fb ig tw bu pf)) = buildReason sy pl fb ig tw bu pf"
  "threshold_used (payload (consolidate env sy pl fb ig tw bu pf)) = APPROVAL_THRESHOLD env"
  "data_sources (payload (consolidate env sy pl fb ig tw bu pf)) =
            (if syntageAvailable sy then [''syntage''] else []) @
            (if placesAvailable pl then [''google_places''] else []) @
            (if facebookAvailable fb then [''facebook''] else []) @
            (if instagramAvailable ig then [''instagram''] else []) @
            (if twilioAvailable tw then [''twilio''] else []) @
            (if bureauAvailable bu then [''bureau''] else []) @
            (if platformAvailable pf then [''platform''] else [])"
  by (simp_all add: consolidate_def Let_def)

lemma data_sources_member:
  "''syntage'' \<in> set (data_sources (payload (consolidate env sy pl fb ig tw bu pf)))
     = syntageAvailable sy"
  "''google_places'' \<in> set (data_sources (payload (consolidate env sy pl fb ig tw bu pf)))
     = placesAvailable pl"
  "''facebook'' \<in> set (data_sources (payload (consolidate env sy pl fb ig tw bu pf)))
     = facebookAvailable fb"
  "''instagram'' \<in> set (data_sources (payload (consolidate env sy pl fb ig tw bu pf)))
     = instagramAvailable ig"
  "''twilio'' \<in> set (data_sources (payload (consolidate env sy pl fb ig tw bu pf)))
     = twilioAvailable tw"
  "''bureau'' \<in> set (data_sources (payload (consolidate env sy pl fb ig tw bu pf)))
     = bureauAvailable bu"
  "''platform'' \<in> set (data_sources (payload (consolidate env sy pl fb ig tw bu pf)))
     = platformAvailable pf"
  by (simp_all add: consolidate_fields(12))


section \<open>Evaluation of concrete runs\<close>

lemmas run_defs = runUnderwriting_def consolidate_def syntage_block_def places_block_def
  facebook_block_def instagram_block_def twilio_block_def bureau_block_def platform_block_def
  try_catch_def and_then_def withTimeout_def form_field_def nullish_def truthy_string_def
  Let_def decisionStatus_def computeTotalRevenue_def Math_round_def
  syntage_initial_def places_initial_def facebook_initial_def instagram_initial_def
  twilio_initial_def bureau_initial_def platform_initial_def buildReason_def twilioNotes_def

lemmas input_defs = default_env_def zero_threshold_env_def sample_application_def
  failing_adapters_def scenario_adapters_def no_tax_adapters_def zero_revenue_adapters_def
  low_revenue_adapters_def negative_revenue_adapters_def syntage_stub_def places_stub_def
  twilio_stub_def bureau_stub_def platform_stub_def boundary_env_def other_application_def
  partial_response_adapters_def partial_response_def page_application_def fanless_page_def
  fanless_page_adapters_def

lemmas f64_eval = binary64_def binade_def pow2_def round_half_even_def Let_def compute_floorlog
  Math_round64_def Math_round_def strict_eq_def flt_def fsub_def fneg_def infinity_of_sign_def

lemma decisionStatus_zero: "0 < threshold \<Longrightarrow> decisionStatus 0 threshold = REJECTED"
  by (simp add: decisionStatus_def)

lemma scenario_total:
  "map_sum id (total_revenue \<circ> payload)
     (runUnderwriting default_env scenario_adapters sample_application) = Inr 79279"
  by (simp add: run_defs input_defs)

lemma boundary_total:
  "map_sum id (total_revenue \<circ> payload)
     (runUnderwriting boundary_env scenario_adapters sample_application) = Inr 79279"
  by (simp add: run_defs input_defs)

lemma low_revenue_total:
  "map_sum id (total_revenue \<circ> payload)
     (runUnderwriting default_env low_revenue_adapters sample_application) = Inr 40000"
  by (simp add: run_defs input_defs)



section \<open>Properties of the scoring engine, the scorer and the credit offer\<close>

text \<open>
  The engine multiplies in binary floating point, and the result is not always the
  nearest integer of the product of the factors: at a base of 1,103,589 (an annual revenue
  of 13,243,068) with listings score 72, bureau score 720, 800 followers on the second
  platform, a matching identity, business messaging and a recent SIM swap the product is
  1,365,263.4999999996, whose nearest integer is 1,365,263, and the engine returns
  1,365,264. And a connected first-platform page that reports no follower count gets no
  tier: the run below has the page among its data sources and a total of 60,000, where a
  tier of 0.02 for a connected page gives 61,200.
\<close>

theorem total_revenue_product_counterexample:
  "computeTotalRevenue64 (dbl 1103589) (dbl 72) (Some (dbl 720)) None True None
     (Some (dbl 800)) (Some True) (Some True) (Some True) = Finite 1365264 \<and>
   Math_round
     (1103589 * listings_boost 72 *
      (1 + facebook_tier_connected False None + instagram_tier (Some 800)) *
      identity_boost (Some True) * messaging_boost (Some True) * sim_swap_penalty (Some True) *
      bureau_multiplier (Some 720) * tenure_multiplier None * compliance_multiplier True)
     = 1365263 \<and>
   map_sum id facebook_result
     (runUnderwriting default_env fanless_page_adapters page_application) =
     Inr (Some fanless_page) \<and>
   fb_connected fanless_page \<and>
   map_sum id (data_sources \<circ> payload)
     (runUnderwriting default_env fanless_page_adapters page_application) =
     Inr [''syntage'', ''facebook''] \<and>
   map_sum id (facebook_fan_count \<circ> payload)
     (runUnderwriting default_env fanless_page_adapters page_application) = Inr None \<and>
   map_sum id (total_revenue \<circ> payload)
     (runUnderwriting default_env fanless_page_adapters page_application) = Inr 60000 \<and>
   computeTotalRevenue64 (dbl 60000) (dbl 0) None None True None None None None None =
     Finite 60000 \<and>
   Math_round
     (60000 * listings_boost 0 *
      (1 + facebook_tier_connected True None + instagram_tier None) *
      identity_boost None * messaging_boost None * sim_swap_penalty None *
      bureau_multiplier None * tenure_multiplier None * compliance_multiplier True)
     = 61200"
proof -
  have a: "computeTotalRevenue64 (dbl 1103589) (dbl 72) (Some (dbl 720)) None True None
     (Some (dbl 800)) (Some True) (Some True) (Some True) = Finite 1365264"
    by (simp add: computeTotalRevenue64_def f64_eval)
  have b: "Math_round
     (1103589 * listings_boost 72 *
      (1 + facebook_tier_connected False None + instagram_tier (Some 800)) *
      identity_boost (Some True) * messaging_boost (Some True) * sim_swap_penalty (Some True) *
      bureau_multiplier (Some 720) * tenure_multiplier None * compliance_multiplier True)
     = 1365263"
    by (simp add: listings_boost_def facebook_tier_connected_def instagram_tier_def
        identity_boost_def messaging_boost_def sim_swap_penalty_def bureau_multiplier_def
        tenure_multiplier_def compliance_multiplier_def Math_round_def)
  have c: "map_sum id facebook_result
     (runUnderwriting default_env fanless_page_adapters page_application) =
     Inr (Some fanless_page)"
    by (simp add: run_defs input_defs)
  have d: "fb_connected fanless_page"
    by (simp add: fanless_page_def)
  have e: "map_sum id (data_sources \<circ> payload)
     (runUnderwriting default_env fanless_page_adapters page_application) =
     Inr [''syntage'', ''facebook'']"
    by (simp add: run_defs input_defs)
  have f: "map_sum id (facebook_fan_count \<circ> payload)
     (runUnderwriting default_env fanless_page_adapters page_application) = Inr None"
    by (simp add: run_defs input_defs)
  have g: "map_sum id (total_revenue \<circ> payload)
     (runUnderwriting default_env fanless_page_adapters page_application) = Inr 60000"
    by (simp add: run_defs input_defs)
  have h: "computeTotalRevenue64 (dbl 60000) (dbl 0) None None True None None None None None =
     Finite 60000"
    by (simp add: computeTotalRevenue64_def f64_eval)
  have i: "Math_round
     (60000 * listings_boost 0 *
      (1 + facebook_tier_connected True None + instagram_tier None) *
      identity_boost None * messaging_boost None * sim_swap_penalty None *
      bureau_multiplier None * tenure_multiplier None * compliance_multiplier True)
     = 61200"
    by (simp add: listings_boost_def facebook_tier_connected_def instagram_tier_def
        identity_boost_def messaging_boost_def sim_swap_penalty_def bureau_multiplier_def
        tenure_multiplier_def compliance_multiplier_def Math_round_def)
  from a b c d e f g h i show ?thesis by (intro conjI)
qed

text \<open>
  C1, amended. For every base that is not zero under \<^verbatim>\<open>===\<close> the total weighted revenue
  is the product, taken from left to right in binary floating point, of the base, the
  listings boost \<open>1 + (score / 100) * 0.20\<close>, the social boost (one plus the two platform
  tiers, a tier being 0 when no follower count reaches the formula), the identity-match
  boost, the business-messaging boost, the SIM-swap penalty, the bureau multiplier, the
  tenure multiplier and the compliance multiplier, rounded by \<^verbatim>\<open>Math.round\<close>; base 60,000
  with listings score 72, bureau score 720, tenure 36 months, compliant and no social or
  phone data gives 79,279.
\<close>

theorem total_revenue_formula:
  "(\<not> strict_eq base (dbl 0) \<longrightarrow>
      computeTotalRevenue64 base score bureau tenure compliant fans followers idm wa sim =
      Math_round64
        (fmul (fmul (fmul (fmul (fmul (fmul (fmul (fmul base (listings_boost64 score))
           (social_boost64 fans followers)) (identity_boost64 idm)) (messaging_boost64 wa))
           (sim_swap_penalty64 sim)) (bureau_multiplier64 bureau))
           (tenure_multiplier64 tenure)) (compliance_multiplier64 compliant))) \<and>
   computeTotalRevenue64 (dbl 60000) (dbl 72) (Some (dbl 720)) (Some (dbl 36)) True
     None None None None None = Finite 79279"
proof
  show "\<not> strict_eq base (dbl 0) \<longrightarrow>
      computeTotalRevenue64 base score bureau tenure compliant fans followers idm wa sim =
      Math_round64
        (fmul (fmul (fmul (fmul (fmul (fmul (fmul (fmul base (listings_boost64 score))
           (social_boost64 fans followers)) (identity_boost64 idm)) (messaging_boost64 wa))
           (sim_swap_penalty64 sim)) (bureau_multiplier64 bureau))
           (tenure_multiplier64 tenure)) (compliance_multiplier64 compliant))"
    by (simp add: computeTotalRevenue64_def Let_def listings_boost64_def social_boost64_def
        facebook_tier64_def instagram_tier64_def identity_boost64_def messaging_boost64_def
        sim_swap_penalty64_def bureau_multiplier64_def tenure_multiplier64_def
        compliance_multiplier64_def)
  show "computeTotalRevenue64 (dbl 60000) (dbl 72) (Some (dbl 720)) (Some (dbl 36)) True
     None None None None None = Finite 79279"
    by (simp add: computeTotalRevenue64_def f64_eval)
qed

text \<open>
  The formula at base 1,250 with listings score 65 and no other signal: the product in
  binary floating point is just below 1,412.5 and the total is 1,412.
\<close>

theorem total_revenue_formula_witness:
  "\<not> strict_eq (dbl 1250) (dbl 0) \<and>
   computeTotalRevenue64 (dbl 1250) (dbl 65) None None True None None None None None =
   Math_round64
     (fmul (fmul (fmul (fmul (fmul (fmul (fmul (fmul (dbl 1250) (listings_boost64 (dbl 65)))
        (social_boost64 None None)) (identity_boost64 None)) (messaging_boost64 None))
        (sim_swap_penalty64 None)) (bureau_multiplier64 None))
        (tenure_multiplier64 None)) (compliance_multiplier64 True)) \<and>
   computeTotalRevenue64 (dbl 1250) (dbl 65) None None True None None None None None =
     Finite 1412"
proof -
  have n: "\<not> strict_eq (dbl 1250) (dbl 0)"
    by (simp add: f64_eval)
  have v: "computeTotalRevenue64 (dbl 1250) (dbl 65) None None True None None None None None =
     Finite 1412"
    by (simp add: computeTotalRevenue64_def f64_eval)
  from total_revenue_formula
    [of "dbl 1250" "dbl 65" None None True None None None None None] n v
  show ?thesis by blast
qed

text \<open>
  C5. In every computed credit offer the withheld amount plus the direct-debit amount is
  the monthly payment exactly; the withheld amount is the rounded fifth of the payment and
  the direct debit is the payment minus the withheld amount. The three amounts are whole
  numbers.
\<close>

theorem repayment_split_exact:
  "withholding_amount (computeCreditOffer amount bureau n social fiscal) +
   direct_debit_amount (computeCreditOffer amount bureau n social fiscal) =
   monthly_payment (computeCreditOffer amount bureau n social fiscal) \<and>
   withholding_amount (computeCreditOffer amount bureau n social fiscal) =
   Math_round (monthly_payment (computeCreditOffer amount bureau n social fiscal) * 0.20) \<and>
   direct_debit_amount (computeCreditOffer amount bureau n social fiscal) =
   monthly_payment (computeCreditOffer amount bureau n social fiscal) -
   withholding_amount (computeCreditOffer amount bureau n social fiscal) \<and>
   monthly_payment (computeCreditOffer amount bureau n social fiscal) \<in> \<int> \<and>
   withholding_amount (computeCreditOffer amount bureau n social fiscal) \<in> \<int> \<and>
   direct_debit_amount (computeCreditOffer amount bureau n social fiscal) \<in> \<int>"
  by (simp add: computeCreditOffer_def Let_def Math_round_integer)

text \<open>
  The approved amount is not rounded down: a base of 50,500 in the lowest tier gives a
  product of 60,600 and an approved amount of 61,000. And the rounding is that of the
  quotient the engine computes in binary floating point: at a base of 22,500 in the 1.4
  tier the formula over the reals gives 32,000 (31.5 rounds to 32), and the engine, whose
  product is below 31,500, returns 31,000.
\<close>

theorem approved_amount_rounds_up_counterexample:
  "approved_amount64 (computeCreditOffer64 pow_rounded (dbl 50500) None (dbl 1) False False)
     = Finite 61000 \<and>
   fmul (dbl 50500) (dbl 1.2) = Finite 60600 \<and>
   fgt (approved_amount64
          (computeCreditOffer64 pow_rounded (dbl 50500) None (dbl 1) False False))
       (fmul (dbl 50500) (dbl 1.2)) \<and>
   approved_amount64 (computeCreditOffer64 pow_rounded (dbl 22500) None (dbl 2) True False)
     = Finite 31000 \<and>
   Math_round (22500 * 1.4 / 1000) * 1000 = 32000"
proof -
  have a: "approved_amount64
      (computeCreditOffer64 pow_rounded (dbl 50500) None (dbl 1) False False) = Finite 61000"
    by (simp add: computeCreditOffer64_def f64_eval)
  have b: "fmul (dbl 50500) (dbl 1.2) = Finite 60600"
    by (simp add: f64_eval)
  have c: "approved_amount64
      (computeCreditOffer64 pow_rounded (dbl 22500) None (dbl 2) True False) = Finite 31000"
    by (simp add: computeCreditOffer64_def f64_eval)
  have d: "Math_round (22500 * 1.4 / 1000) * 1000 = 32000"
    by (simp add: Math_round_def)
  from a b c d show ?thesis by simp
qed

text \<open>
  C6, amended. The approved amount is \<^verbatim>\<open>round(base * multiplier / 1000) * 1000\<close> with every
  operation in binary floating point, the multiplier being 2.0 with fiscal data, else 1.4
  with a social source, else 1.2: when the computed quotient is finite, the amount is 1000
  times the integer nearest to that quotient, which is within one half of it on either
  side. Fiscal data with base 50,000 gives 100,000.
\<close>

theorem approved_amount_nearest_thousand:
  "approved_amount64 (computeCreditOffer64 pw amount bureau n social fiscal) =
     fmul (Math_round64
             (fdiv (fmul amount (if fiscal then dbl 2.0 else if social then dbl 1.4 else dbl 1.2))
                (dbl 1000)))
       (dbl 1000) \<and>
   (\<forall>q. fdiv (fmul amount (if fiscal then dbl 2.0 else if social then dbl 1.4 else dbl 1.2))
          (dbl 1000) = Finite q \<longrightarrow>
        approved_amount64 (computeCreditOffer64 pw amount bureau n social fiscal) =
          fmul (Finite (Math_round q)) (dbl 1000) \<and>
        Math_round q \<in> \<int> \<and> \<bar>Math_round q - q\<bar> \<le> 1 / 2) \<and>
   approved_amount64 (computeCreditOffer64 pw (dbl 50000) bureau n social True) =
     Finite 100000"
proof -
  let ?m = "if fiscal then dbl 2.0 else if social then dbl 1.4 else dbl 1.2"
  have eq: "approved_amount64 (computeCreditOffer64 pw amount bureau n social fiscal) =
     fmul (Math_round64 (fdiv (fmul amount ?m) (dbl 1000))) (dbl 1000)"
    by (simp add: computeCreditOffer64_def Let_def)
  have near: "approved_amount64 (computeCreditOffer64 pw amount bureau n social fiscal) =
          fmul (Finite (Math_round q)) (dbl 1000) \<and>
        Math_round q \<in> \<int> \<and> \<bar>Math_round q - q\<bar> \<le> 1 / 2"
    if "fdiv (fmul amount ?m) (dbl 1000) = Finite q" for q
  proof -
    from that eq have "approved_amount64 (computeCreditOffer64 pw amount bureau n social fiscal) =
          fmul (Finite (Math_round q)) (dbl 1000)"
      by (simp add: Math_round64_def)
    then show ?thesis using Math_round_integer[of q] Math_round_near[of q] by simp
  qed
  have sc: "approved_amount64 (computeCreditOffer64 pw (dbl 50000) bureau n social True) =
     Finite 100000"
    by (simp add: computeCreditOffer64_def f64_eval)
  from eq near sc show ?thesis by blast
qed

text \<open>
  A base of 50,500 in the lowest tier: the computed quotient is the double nearest to
  60.6, the nearest integer is 61 and the approved amount 61,000.
\<close>

theorem approved_amount_nearest_thousand_witness:
  "fdiv (fmul (dbl 50500) (dbl 1.2)) (dbl 1000) = Finite (8528691794332877 / 140737488355328) \<and>
   Math_round (8528691794332877 / 140737488355328) = 61 \<and>
   approved_amount64 (computeCreditOffer64 pow_rounded (dbl 50500) None (dbl 1) False False)
     = fmul (Finite 61) (dbl 1000) \<and>
   fmul (Finite 61) (dbl 1000) = Finite 61000"
proof -
  have q: "fdiv (fmul (dbl 50500) (dbl 1.2)) (dbl 1000)
      = Finite (8528691794332877 / 140737488355328)"
    by (simp add: f64_eval)
  have r: "Math_round (8528691794332877 / 140737488355328) = 61"
    by (simp add: Math_round_def)
  have t: "fmul (Finite 61) (dbl 1000) = Finite 61000"
    by (simp add: f64_eval)
  have "\<forall>q. fdiv (fmul (dbl 50500) (if False then dbl 2.0 else if False then dbl 1.4 else dbl 1.2))
          (dbl 1000) = Finite q \<longrightarrow>
        approved_amount64
          (computeCreditOffer64 pow_rounded (dbl 50500) None (dbl 1) False False) =
          fmul (Finite (Math_round q)) (dbl 1000) \<and>
        Math_round q \<in> \<int> \<and> \<bar>Math_round q - q\<bar> \<le> 1 / 2"
    by (rule conjunct1[OF conjunct2[OF approved_amount_nearest_thousand
          [of pow_rounded "dbl 50500" None "dbl 1" False False]]])
  then have "\<forall>q. fdiv (fmul (dbl 50500) (dbl 1.2)) (dbl 1000) = Finite q \<longrightarrow>
        approved_amount64
          (computeCreditOffer64 pow_rounded (dbl 50500) None (dbl 1) False False) =
          fmul (Finite (Math_round q)) (dbl 1000)"
    by simp
  with q have "approved_amount64
      (computeCreditOffer64 pow_rounded (dbl 50500) None (dbl 1) False False)
      = fmul (Finite (Math_round (8528691794332877 / 140737488355328))) (dbl 1000)"
    by blast
  with q r t show ?thesis by simp
qed

text \<open>
  A listing without a rating gets no rating points: with no other signal its score is 0,
  where the table's "5 points otherwise" gives 5.
\<close>

theorem signals_score_unrated_counterexample:
  "computeSignalsScore unrated_listing = 0 \<and> min (spec_signals_sum unrated_listing) 100 = 5"
  by (simp add: computeSignalsScore_def ratingPoints_def reviewPoints_def pricePoints_def
      unrated_listing_def places_not_connected_def truthy_number_def truthy_bool_def
      hasCommercialType_def Let_def spec_signals_sum_def spec_rating_points_def
      spec_review_points_def spec_price_points_def)

text \<open>
  C7, amended. The signals score is the sum of the table capped at 100, where the rating
  gives 25, 20, 12 or 5 points only when a non-zero rating is present and no points when
  the rating is absent or zero; the other rows are as the table has them. The score lies
  within 0 and 100.
\<close>

theorem signals_score_table:
  "computeSignalsScore data =
     min (spec_signals_sum data - (if truthy_number (pl_rating data) then 0 else 5)) 100 \<and>
   0 \<le> computeSignalsScore data \<and> computeSignalsScore data \<le> 100"
proof -
  have r: "ratingPoints data =
      spec_rating_points (pl_rating data) - (if truthy_number (pl_rating data) then 0 else 5)"
    by (cases "pl_rating data")
       (auto simp add: ratingPoints_def spec_rating_points_def truthy_number_def)
  have "ratingPoints data + reviewPoints data +
          (if truthy_bool (pl_is_verified data) then 10 else 0) +
          (if truthy_bool (pl_has_website data) then 10 else 0) +
          (if pl_business_status data = Some ''OPERATIONAL'' then 10 else 0) +
          (if hasCommercialType data then 10 else 0) +
          pricePoints data =
        spec_signals_sum data - (if truthy_number (pl_rating data) then 0 else 5)"
    unfolding spec_signals_sum_def r reviewPoints_spec pricePoints_spec truthy_bool_Some_True
    by linarith
  then have "computeSignalsScore data =
     min (spec_signals_sum data - (if truthy_number (pl_rating data) then 0 else 5)) 100"
    by (simp only: computeSignalsScore_sum)
  moreover have "0 \<le> computeSignalsScore data \<and> computeSignalsScore data \<le> 100"
    unfolding computeSignalsScore_sum using signals_sum_range[of data] by linarith
  ultimately show ?thesis by simp
qed

text \<open>
  C10. The signals score is at most 90, the sum of the weights 25, 20, 10, 10, 10, 10
  and 5: it is the plain sum of the sub-scores, the cap at 100 never binds, and a listing
  with every signal at its best scores exactly 90.
\<close>

theorem signals_score_at_most_90:
  "computeSignalsScore data =
     ratingPoints data + reviewPoints data +
     (if truthy_bool (pl_is_verified data) then 10 else 0) +
     (if truthy_bool (pl_has_website data) then 10 else 0) +
     (if pl_business_status data = Some ''OPERATIONAL'' then 10 else 0) +
     (if hasCommercialType data then 10 else 0) +
     pricePoints data \<and>
   0 \<le> computeSignalsScore data \<and> computeSignalsScore data \<le> 90 \<and>
   computeSignalsScore best_listing = 90"
proof -
  have "computeSignalsScore best_listing = 90" by code_simp
  then show ?thesis
    unfolding computeSignalsScore_sum[of data] using signals_sum_range[of data] by linarith
qed




section \<open>Properties of the orchestrator and the decision\<close>

text \<open>
  In the statements below an adapter is any function to promises, and a source is unavailable
  when its promise is not fulfilled before the time-out (it is rejected or still pending)
  or when its result says "not connected".
\<close>

text \<open>
  With a threshold of zero a run without the tax/revenue source has total 0 and is
  APPROVED.
\<close>

theorem tax_unavailable_zero_threshold_counterexample:
  "map_sum id (total_revenue \<circ> payload)
     (runUnderwriting zero_threshold_env no_tax_adapters sample_application) = Inr 0 \<and>
   map_sum id status
     (runUnderwriting zero_threshold_env no_tax_adapters sample_application) = Inr APPROVED"
  by (simp add: run_defs input_defs)

text \<open>
  C2, amended. Every run returns a decision. When the tax/revenue source is unavailable
  the total revenue is 0 whatever the other sources return, and the status is REJECTED
  provided the configured threshold is positive. The total revenue is non-zero only when
  the tax/revenue source was available (it is then listed among the data sources).
\<close>

theorem tax_source_gate:
  "\<exists>d. runUnderwriting env ad application = Inr d \<and>
     ((\<forall>raw. getRevenueData ad (merchant_id application) (SYNTAGE_TIMEOUT_MS env) \<noteq> Fulfilled raw)
        \<longrightarrow> total_revenue (payload d) = 0 \<and>
            (0 < APPROVAL_THRESHOLD env \<longrightarrow> status d = REJECTED)) \<and>
     (total_revenue (payload d) \<noteq> 0 \<longrightarrow>
        (\<exists>raw. getRevenueData ad (merchant_id application) (SYNTAGE_TIMEOUT_MS env) = Fulfilled raw) \<and>
        ''syntage'' \<in> set (data_sources (payload d)))"
proof -
  obtain sy pl fb ig tw bu pf where
    sy: "syntage_block env ad application = Inr sy"
    and r: "runUnderwriting env ad application = Inr (consolidate env sy pl fb ig tw bu pf)"
    by (rule runUnderwriting_consolidate)
  let ?d = "consolidate env sy pl fb ig tw bu pf"
  have unavailable: "total_revenue (payload ?d) = 0 \<and>
      (0 < APPROVAL_THRESHOLD env \<longrightarrow> status ?d = REJECTED)"
    if "\<forall>raw. getRevenueData ad (merchant_id application) (SYNTAGE_TIMEOUT_MS env) \<noteq> Fulfilled raw"
  proof -
    from that sy have "sy = syntage_initial"
      by (simp add: syntage_block_unavailable)
    then have "syntageMonthlyRevenue sy = 0" by (simp add: syntage_initial_def)
    then have t: "total_revenue (payload ?d) = 0" by (simp add: consolidate_fields(2))
    then show ?thesis by (simp add: consolidate_fields(1) decisionStatus_zero)
  qed
  have available:
    "(\<exists>raw. getRevenueData ad (merchant_id application) (SYNTAGE_TIMEOUT_MS env) = Fulfilled raw) \<and>
      ''syntage'' \<in> set (data_sources (payload ?d))"
    if "total_revenue (payload ?d) \<noteq> 0"
  proof -
    from that have "syntageMonthlyRevenue sy \<noteq> 0"
      by (auto simp add: consolidate_fields(2))
    then have "syntageResult sy \<noteq> None"
      by (auto simp add: syntage_block_vars(1)[OF sy] split: option.splits)
    then have a: "syntageAvailable sy" by (simp add: syntage_block_vars(3)[OF sy])
    then show ?thesis
      using syntage_block_vars(5)[OF sy] by (simp add: consolidate_fields(12))
  qed
  from r unavailable available show ?thesis by blast
qed

text \<open>
  Without the registry and every other source favourable the run is REJECTED with total 0;
  in the scenario the total is 79,279 and the registry is among the data sources.
\<close>

theorem tax_source_gate_witness:
  "(\<forall>raw. getRevenueData no_tax_adapters (merchant_id sample_application)
            (SYNTAGE_TIMEOUT_MS default_env) \<noteq> Fulfilled raw) \<and>
   0 < APPROVAL_THRESHOLD default_env \<and>
   map_sum id (total_revenue \<circ> payload)
     (runUnderwriting default_env no_tax_adapters sample_application) = Inr 0 \<and>
   map_sum id status
     (runUnderwriting default_env no_tax_adapters sample_application) = Inr REJECTED \<and>
   map_sum id (total_revenue \<circ> payload)
     (runUnderwriting default_env scenario_adapters sample_application) = Inr 79279 \<and>
   map_sum id (\<lambda>d. ''syntage'' \<in> set (data_sources (payload d)))
     (runUnderwriting default_env scenario_adapters sample_application) = Inr True"
proof -
  have h: "\<forall>raw. getRevenueData no_tax_adapters (merchant_id sample_application)
            (SYNTAGE_TIMEOUT_MS default_env) \<noteq> Fulfilled raw"
    by (simp add: input_defs)
  have t: "0 < APPROVAL_THRESHOLD default_env" by (simp add: input_defs)
  from tax_source_gate[of default_env no_tax_adapters sample_application]
  obtain d where d0: "runUnderwriting default_env no_tax_adapters sample_application = Inr d"
    and d1: "(\<forall>raw. getRevenueData no_tax_adapters (merchant_id sample_application)
            (SYNTAGE_TIMEOUT_MS default_env) \<noteq> Fulfilled raw)
        \<longrightarrow> total_revenue (payload d) = 0 \<and>
            (0 < APPROVAL_THRESHOLD default_env \<longrightarrow> status d = REJECTED)"
    by (elim exE conjE) (rule that; assumption)
  from d1 h t have d2: "total_revenue (payload d) = 0" "status d = REJECTED" by simp_all
  from tax_source_gate[of default_env scenario_adapters sample_application]
  obtain e where e0: "runUnderwriting default_env scenario_adapters sample_application = Inr e"
    and e1: "total_revenue (payload e) \<noteq> 0 \<longrightarrow>
        (\<exists>raw. getRevenueData scenario_adapters (merchant_id sample_application)
                 (SYNTAGE_TIMEOUT_MS default_env) = Fulfilled raw) \<and>
        ''syntage'' \<in> set (data_sources (payload e))"
    by (elim exE conjE) (rule that; assumption)
  from scenario_total e0 have e2: "total_revenue (payload e) = 79279" by simp
  with e1 have e3: "''syntage'' \<in> set (data_sources (payload e))" by simp
  from h t d0 d2 e0 e2 e3 show ?thesis by simp
qed

text \<open>
  With a threshold of zero a run whose registry reports a revenue of zero has total 0 and
  is APPROVED.
\<close>

theorem zero_total_zero_threshold_counterexample:
  "map_sum id (total_revenue \<circ> payload)
     (runUnderwriting zero_threshold_env zero_revenue_adapters sample_application) = Inr 0 \<and>
   map_sum id status
     (runUnderwriting zero_threshold_env zero_revenue_adapters sample_application) = Inr APPROVED"
  by (simp add: run_defs input_defs)

text \<open>
  C3, amended. Every run returns a decision whose status is APPROVED when the total
  revenue is at least the configured threshold (so also when it equals the threshold),
  otherwise MANUAL_REVIEW when the total is positive, otherwise REJECTED; no other status
  is produced, and the threshold is recorded in the payload. With a positive threshold a
  total of 0 is REJECTED.
\<close>

theorem decision_status_resolution:
  "\<exists>d. runUnderwriting env ad application = Inr d \<and>
     threshold_used (payload d) = APPROVAL_THRESHOLD env \<and>
     (status d = APPROVED \<or> status d = MANUAL_REVIEW \<or> status d = REJECTED) \<and>
     (APPROVAL_THRESHOLD env \<le> total_revenue (payload d) \<longrightarrow> status d = APPROVED) \<and>
     (total_revenue (payload d) = APPROVAL_THRESHOLD env \<longrightarrow> status d = APPROVED) \<and>
     (total_revenue (payload d) < APPROVAL_THRESHOLD env \<and> 0 < total_revenue (payload d) \<longrightarrow>
        status d = MANUAL_REVIEW) \<and>
     (total_revenue (payload d) < APPROVAL_THRESHOLD env \<and> total_revenue (payload d) \<le> 0 \<longrightarrow>
        status d = REJECTED) \<and>
     (0 < APPROVAL_THRESHOLD env \<and> total_revenue (payload d) = 0 \<longrightarrow> status d = REJECTED)"
proof -
  obtain sy pl fb ig tw bu pf where
    r: "runUnderwriting env ad application = Inr (consolidate env sy pl fb ig tw bu pf)"
    by (rule runUnderwriting_consolidate)
  let ?d = "consolidate env sy pl fb ig tw bu pf"
  have s: "status ?d = decisionStatus (total_revenue (payload ?d)) (APPROVAL_THRESHOLD env)"
    by (rule consolidate_fields(1))
  have "threshold_used (payload ?d) = APPROVAL_THRESHOLD env \<and>
     (status ?d = APPROVED \<or> status ?d = MANUAL_REVIEW \<or> status ?d = REJECTED) \<and>
     (APPROVAL_THRESHOLD env \<le> total_revenue (payload ?d) \<longrightarrow> status ?d = APPROVED) \<and>
     (total_revenue (payload ?d) = APPROVAL_THRESHOLD env \<longrightarrow> status ?d = APPROVED) \<and>
     (total_revenue (payload ?d) < APPROVAL_THRESHOLD env \<and> 0 < total_revenue (payload ?d) \<longrightarrow>
        status ?d = MANUAL_REVIEW) \<and>
     (total_revenue (payload ?d) < APPROVAL_THRESHOLD env \<and> total_revenue (payload ?d) \<le> 0 \<longrightarrow>
        status ?d = REJECTED) \<and>
     (0 < APPROVAL_THRESHOLD env \<and> total_revenue (payload ?d) = 0 \<longrightarrow> status ?d = REJECTED)"
    unfolding s consolidate_fields(11) by (simp add: decisionStatus_def)
  with r show ?thesis by blast
qed

text \<open>
  The scenario is APPROVED at the default threshold and at a threshold equal to its total;
  a revenue of 40,000 a month is MANUAL_REVIEW; with no source the run is REJECTED.
\<close>

theorem decision_status_resolution_witness:
  "map_sum id status (runUnderwriting default_env scenario_adapters sample_application)
     = Inr APPROVED \<and>
   map_sum id status (runUnderwriting boundary_env scenario_adapters sample_application)
     = Inr APPROVED \<and>
   map_sum id status (runUnderwriting default_env low_revenue_adapters sample_application)
     = Inr MANUAL_REVIEW \<and>
   map_sum id status (runUnderwriting default_env failing_adapters sample_application)
     = Inr REJECTED"
proof -
  have 1: "map_sum id status (runUnderwriting default_env scenario_adapters sample_application)
     = Inr APPROVED"
    using decision_status_resolution[of default_env scenario_adapters sample_application]
      scenario_total
    by (auto simp add: default_env_def)
  have 2: "map_sum id status (runUnderwriting boundary_env scenario_adapters sample_application)
     = Inr APPROVED"
    using decision_status_resolution[of boundary_env scenario_adapters sample_application]
      boundary_total
    by (auto simp add: boundary_env_def default_env_def)
  have 3: "map_sum id status (runUnderwriting default_env low_revenue_adapters sample_application)
     = Inr MANUAL_REVIEW"
    using decision_status_resolution[of default_env low_revenue_adapters sample_application]
      low_revenue_total
    by (auto simp add: default_env_def)
  have 4: "map_sum id status (runUnderwriting default_env failing_adapters sample_application)
     = Inr REJECTED"
    using decision_status_resolution[of default_env failing_adapters sample_application]
    by (auto simp add: run_defs input_defs)
  from 1 2 3 4 show ?thesis by simp
qed

text \<open>
  With a threshold of zero a run in which all seven sources are unavailable is APPROVED;
  its reason has the header sentence and the sentence on the missing tax data only. And a
  registry response that lacks the declared fields other than the annual revenue is not
  turned into an unavailable source: the registry is the one data source of the run, whose
  total is 60,000. (A response that lacks the annual revenue too is used in the same way:
  its monthly revenue, \<^verbatim>\<open>undefined / 12\<close>, is NaN, and the total of a NaN base is NaN.)
\<close>

theorem all_unavailable_zero_threshold_counterexample:
  "map_sum id (data_sources \<circ> payload)
     (runUnderwriting zero_threshold_env failing_adapters sample_application) = Inr [] \<and>
   map_sum id status
     (runUnderwriting zero_threshold_env failing_adapters sample_application) = Inr APPROVED \<and>
   map_sum id (reason \<circ> payload)
     (runUnderwriting zero_threshold_env failing_adapters sample_application) =
     Inr [ManualReviewHeader, SatUnavailable] \<and>
   map_sum id (data_sources \<circ> payload)
     (runUnderwriting default_env partial_response_adapters sample_application) =
     Inr [''syntage''] \<and>
   map_sum id (total_revenue \<circ> payload)
     (runUnderwriting default_env partial_response_adapters sample_application) = Inr 60000 \<and>
   map_sum id status
     (runUnderwriting default_env partial_response_adapters sample_application) = Inr APPROVED \<and>
   computeTotalRevenue64 NaN (dbl 0) None None True None None None None None = NaN"
proof -
  have "computeTotalRevenue64 NaN (dbl 0) None None True None None None None None = NaN"
    by (simp add: computeTotalRevenue64_def f64_eval)
  then show ?thesis
    by (simp add: run_defs input_defs)
qed

text \<open>
  C4, amended. Every run returns a decision and none throws. Each source stands alone:
  an adapter whose promise is fulfilled before its time-out has its result in the
  decision (the registry is then an available source, whatever fields its response has),
  and an adapter whose promise is rejected or still pending at its time-out (or
  that is not called, for the listing and the two social adapters, whose calls are guarded
  by the form data and the demo mode) leaves its own source unavailable -- no result for
  the registry, the bureau and the platform, the "not connected" result for the other
  four, and the source absent from the data sources -- whatever the other six adapters do.
  When no adapter promise is fulfilled no source is available; when no source is available
  the total is 0, the reason consists of the header sentence and the sentence that the tax
  data are unavailable (no other missing source is named), and the status is REJECTED
  provided the threshold is positive.
\<close>

theorem run_always_returns:
  "\<exists>d. runUnderwriting env ad application = Inr d \<and>
     (\<forall>raw. getRevenueData ad (merchant_id application) (SYNTAGE_TIMEOUT_MS env) = Fulfilled raw
        \<longrightarrow> (\<exists>r. syntage_result d = Some r \<and> sy_annual_revenue r = raw_annual_revenue raw) \<and>
            ''syntage'' \<in> set (data_sources (payload d))) \<and>
     (\<forall>p. form_field fd_google_business_url application \<noteq> [] \<and>
          getPlacesData ad (form_field fd_google_business_url application) 10000 = Fulfilled p
        \<longrightarrow> places_result d = Some p) \<and>
     (\<forall>f. (form_field fd_facebook_access_token application \<noteq> [] \<or> DEMO_MODE env) \<and>
          getPageData ad (form_field fd_facebook_access_token application) 8000 = Fulfilled f
        \<longrightarrow> facebook_result d = Some f) \<and>
     (\<forall>i. (form_field fd_instagram_access_token application \<noteq> [] \<or>
           form_field fd_facebook_access_token application \<noteq> [] \<or> DEMO_MODE env) \<and>
          getProfileData ad
            (if form_field fd_instagram_access_token application \<noteq> []
             then form_field fd_instagram_access_token application
             else form_field fd_facebook_access_token application) 8000 = Fulfilled i
        \<longrightarrow> instagram_result d = Some i) \<and>
     (\<forall>t. verifyPhone ad
            (if form_field fd_phone application \<noteq> [] then form_field fd_phone application
             else ''+525500000000'')
            (firstNameOf (form_field fd_legal_name application))
            (lastNameOf (form_field fd_legal_name application)) 8000 = Fulfilled t
        \<longrightarrow> twilio_result d = Some t) \<and>
     (\<forall>b. getScore ad (form_field fd_tax_id application) 8000 = Fulfilled b
        \<longrightarrow> bureau_result d = Some b) \<and>
     (\<forall>q. getMerchantData ad (merchant_id application) 5000 = Fulfilled q
        \<longrightarrow> platform_result d = Some q) \<and>
     ((\<forall>raw. getRevenueData ad (merchant_id application) (SYNTAGE_TIMEOUT_MS env) \<noteq> Fulfilled raw)
        \<longrightarrow> syntage_result d = None \<and> ''syntage'' \<notin> set (data_sources (payload d))) \<and>
     (form_field fd_google_business_url application = [] \<or>
      (\<forall>p. getPlacesData ad (form_field fd_google_business_url application) 10000 \<noteq> Fulfilled p)
        \<longrightarrow> places_result d = Some places_not_connected \<and>
            ''google_places'' \<notin> set (data_sources (payload d))) \<and>
     ((form_field fd_facebook_access_token application = [] \<and> \<not> DEMO_MODE env) \<or>
      (\<forall>f. getPageData ad (form_field fd_facebook_access_token application) 8000 \<noteq> Fulfilled f)
        \<longrightarrow> facebook_result d = Some facebook_not_connected \<and>
            ''facebook'' \<notin> set (data_sources (payload d))) \<and>
     ((form_field fd_instagram_access_token application = [] \<and>
       form_field fd_facebook_access_token application = [] \<and> \<not> DEMO_MODE env) \<or>
      (\<forall>i. getProfileData ad
            (if form_field fd_instagram_access_token application \<noteq> []
             then form_field fd_instagram_access_token application
             else form_field fd_facebook_access_token application) 8000 \<noteq> Fulfilled i)
        \<longrightarrow> instagram_result d = Some instagram_not_connected \<and>
            ''instagram'' \<notin> set (data_sources (payload d))) \<and>
     ((\<forall>t. verifyPhone ad
            (if form_field fd_phone application \<noteq> [] then form_field fd_phone application
             else ''+525500000000'')
            (firstNameOf (form_field fd_legal_name application))
            (lastNameOf (form_field fd_legal_name application)) 8000 \<noteq> Fulfilled t)
        \<longrightarrow> twilio_result d = Some twilio_not_connected \<and>
            ''twilio'' \<notin> set (data_sources (payload d))) \<and>
     ((\<forall>b. getScore ad (form_field fd_tax_id application) 8000 \<noteq> Fulfilled b)
        \<longrightarrow> bureau_result d = None \<and> ''bureau'' \<notin> set (data_sources (payload d))) \<and>
     ((\<forall>q. getMerchantData ad (merchant_id application) 5000 \<noteq> Fulfilled q)
        \<longrightarrow> platform_result d = None \<and> ''platform'' \<notin> set (data_sources (payload d))) \<and>
     ((\<forall>x ms v. getRevenueData ad x ms \<noteq> Fulfilled v) \<and>
      (\<forall>x ms v. getPlacesData ad x ms \<noteq> Fulfilled v) \<and>
      (\<forall>x ms v. getPageData ad x ms \<noteq> Fulfilled v) \<and>
      (\<forall>x ms v. getProfileData ad x ms \<noteq> Fulfilled v) \<and>
      (\<forall>x y z ms v. verifyPhone ad x y z ms \<noteq> Fulfilled v) \<and>
      (\<forall>x ms v. getScore ad x ms \<noteq> Fulfilled v) \<and>
      (\<forall>x ms v. getMerchantData ad x ms \<noteq> Fulfilled v)
        \<longrightarrow> data_sources (payload d) = []) \<and>
     (data_sources (payload d) = [] \<longrightarrow>
        total_revenue (payload d) = 0 \<and>
        reason (payload d) = [ManualReviewHeader, SatUnavailable] \<and>
        (0 < APPROVAL_THRESHOLD env \<longrightarrow> status d = REJECTED))"
proof -
  obtain sy pl fb ig tw bu pf where
    b: "syntage_block env ad application = Inr sy"
    "places_block ad (form_field fd_google_business_url application) = Inr pl"
    "facebook_block env ad (form_field fd_facebook_access_token application) = Inr fb"
    "instagram_block env ad (form_field fd_instagram_access_token application)
       (form_field fd_facebook_access_token application) = Inr ig"
    "twilio_block ad (form_field fd_phone application)
       (firstNameOf (form_field fd_legal_name application))
       (lastNameOf (form_field fd_legal_name application)) = Inr tw"
    "bureau_block ad (form_field fd_tax_id application) = Inr bu"
    "platform_block ad application = Inr pf"
    and r: "runUnderwriting env ad application = Inr (consolidate env sy pl fb ig tw bu pf)"
    by (rule runUnderwriting_consolidate)
  let ?d = "consolidate env sy pl fb ig tw bu pf"
  have i1: "\<forall>raw. getRevenueData ad (merchant_id application) (SYNTAGE_TIMEOUT_MS env) = Fulfilled raw
        \<longrightarrow> (\<exists>r. syntage_result ?d = Some r \<and> sy_annual_revenue r = raw_annual_revenue raw) \<and>
            ''syntage'' \<in> set (data_sources (payload ?d))"
    using syntage_block_vars(6)[OF b(1)] syntage_block_vars(5)[OF b(1)]
    by (auto simp add: consolidate_fields(3) data_sources_member(1))
  have i2: "\<forall>p. form_field fd_google_business_url application \<noteq> [] \<and>
          getPlacesData ad (form_field fd_google_business_url application) 10000 = Fulfilled p
        \<longrightarrow> places_result ?d = Some p"
    using places_block_vars(3)[OF b(2)] by (simp add: consolidate_fields(4))
  have i3: "\<forall>f. (form_field fd_facebook_access_token application \<noteq> [] \<or> DEMO_MODE env) \<and>
          getPageData ad (form_field fd_facebook_access_token application) 8000 = Fulfilled f
        \<longrightarrow> facebook_result ?d = Some f"
    using facebook_block_vars(3)[OF b(3)] by (simp add: consolidate_fields(5))
  have i4: "\<forall>i. (form_field fd_instagram_access_token application \<noteq> [] \<or>
           form_field fd_facebook_access_token application \<noteq> [] \<or> DEMO_MODE env) \<and>
          getProfileData ad
            (if form_field fd_instagram_access_token application \<noteq> []
             then form_field fd_instagram_access_token application
             else form_field fd_facebook_access_token application) 8000 = Fulfilled i
        \<longrightarrow> instagram_result ?d = Some i"
    using instagram_block_vars(3)[OF b(4)] by (simp add: consolidate_fields(6))
  have i5: "\<forall>t. verifyPhone ad
            (if form_field fd_phone application \<noteq> [] then form_field fd_phone application
             else ''+525500000000'')
            (firstNameOf (form_field fd_legal_name application))
            (lastNameOf (form_field fd_legal_name application)) 8000 = Fulfilled t
        \<longrightarrow> twilio_result ?d = Some t"
    using twilio_block_vars(5)[OF b(5)] by (simp add: consolidate_fields(7))
  have i6: "\<forall>b. getScore ad (form_field fd_tax_id application) 8000 = Fulfilled b
        \<longrightarrow> bureau_result ?d = Some b"
    using bureau_block_vars(3)[OF b(6)] by (simp add: consolidate_fields(8))
  have i7: "\<forall>q. getMerchantData ad (merchant_id application) 5000 = Fulfilled q
        \<longrightarrow> platform_result ?d = Some q"
    using platform_block_vars(3)[OF b(7)] by (simp add: consolidate_fields(9))
  have u1: "(\<forall>raw. getRevenueData ad (merchant_id application) (SYNTAGE_TIMEOUT_MS env) \<noteq> Fulfilled raw)
        \<longrightarrow> syntage_result ?d = None \<and> ''syntage'' \<notin> set (data_sources (payload ?d))"
    using syntage_block_vars(7)[OF b(1)] syntage_block_vars(5)[OF b(1)]
    by (simp add: consolidate_fields(3) data_sources_member(1))
  have u2: "form_field fd_google_business_url application = [] \<or>
      (\<forall>p. getPlacesData ad (form_field fd_google_business_url application) 10000 \<noteq> Fulfilled p)
        \<longrightarrow> places_result ?d = Some places_not_connected \<and>
            ''google_places'' \<notin> set (data_sources (payload ?d))"
    using places_block_vars(5)[OF b(2)]
    by (simp add: consolidate_fields(4) data_sources_member(2))
  have u3: "(form_field fd_facebook_access_token application = [] \<and> \<not> DEMO_MODE env) \<or>
      (\<forall>f. getPageData ad (form_field fd_facebook_access_token application) 8000 \<noteq> Fulfilled f)
        \<longrightarrow> facebook_result ?d = Some facebook_not_connected \<and>
            ''facebook'' \<notin> set (data_sources (payload ?d))"
    using facebook_block_vars(5)[OF b(3)]
    by (simp add: consolidate_fields(5) data_sources_member(3))
  have u4: "(form_field fd_instagram_access_token application = [] \<and>
       form_field fd_facebook_access_token application = [] \<and> \<not> DEMO_MODE env) \<or>
      (\<forall>i. getProfileData ad
            (if form_field fd_instagram_access_token application \<noteq> []
             then form_field fd_instagram_access_token application
             else form_field fd_facebook_access_token application) 8000 \<noteq> Fulfilled i)
        \<longrightarrow> instagram_result ?d = Some instagram_not_connected \<and>
            ''instagram'' \<notin> set (data_sources (payload ?d))"
    using instagram_block_vars(5)[OF b(4)]
    by (simp add: consolidate_fields(6) data_sources_member(4))
  have u5: "(\<forall>t. verifyPhone ad
            (if form_field fd_phone application \<noteq> [] then form_field fd_phone application
             else ''+525500000000'')
            (firstNameOf (form_field fd_legal_name application))
            (lastNameOf (form_field fd_legal_name application)) 8000 \<noteq> Fulfilled t)
        \<longrightarrow> twilio_result ?d = Some twilio_not_connected \<and>
            ''twilio'' \<notin> set (data_sources (payload ?d))"
    using twilio_block_vars(6)[OF b(5)] twilio_block_vars(7)[OF b(5)]
    by (simp add: consolidate_fields(7) data_sources_member(5))
  have u6: "(\<forall>b. getScore ad (form_field fd_tax_id application) 8000 \<noteq> Fulfilled b)
        \<longrightarrow> bureau_result ?d = None \<and> ''bureau'' \<notin> set (data_sources (payload ?d))"
    using bureau_block_vars(4)[OF b(6)] bureau_block_vars(5)[OF b(6)]
    by (simp add: consolidate_fields(8) data_sources_member(6))
  have u7: "(\<forall>q. getMerchantData ad (merchant_id application) 5000 \<noteq> Fulfilled q)
        \<longrightarrow> platform_result ?d = None \<and> ''platform'' \<notin> set (data_sources (payload ?d))"
    using platform_block_vars(4)[OF b(7)] platform_block_vars(5)[OF b(7)]
    by (simp add: consolidate_fields(9) data_sources_member(7))
  have none: "data_sources (payload ?d) = []"
    if "(\<forall>x ms v. getRevenueData ad x ms \<noteq> Fulfilled v) \<and>
      (\<forall>x ms v. getPlacesData ad x ms \<noteq> Fulfilled v) \<and>
      (\<forall>x ms v. getPageData ad x ms \<noteq> Fulfilled v) \<and>
      (\<forall>x ms v. getProfileData ad x ms \<noteq> Fulfilled v) \<and>
      (\<forall>x y z ms v. verifyPhone ad x y z ms \<noteq> Fulfilled v) \<and>
      (\<forall>x ms v. getScore ad x ms \<noteq> Fulfilled v) \<and>
      (\<forall>x ms v. getMerchantData ad x ms \<noteq> Fulfilled v)"
  proof -
    have "\<not> syntageAvailable sy" using that by (simp add: syntage_block_vars(5)[OF b(1)])
    moreover have "\<not> placesAvailable pl" using that by (intro places_block_vars(4)[OF b(2)]) simp
    moreover have "\<not> facebookAvailable fb"
      using that by (intro facebook_block_vars(4)[OF b(3)]) simp
    moreover have "\<not> instagramAvailable ig"
      using that by (intro instagram_block_vars(4)[OF b(4)]) simp
    moreover have "\<not> twilioAvailable tw" using that by (intro twilio_block_vars(6)[OF b(5)]) simp
    moreover have "\<not> bureauAvailable bu" using that by (intro bureau_block_vars(4)[OF b(6)]) simp
    moreover have "\<not> platformAvailable pf"
      using that by (intro platform_block_vars(4)[OF b(7)]) simp
    ultimately show ?thesis by (simp add: consolidate_fields(12))
  qed
  have empty: "total_revenue (payload ?d) = 0 \<and>
        reason (payload ?d) = [ManualReviewHeader, SatUnavailable] \<and>
        (0 < APPROVAL_THRESHOLD env \<longrightarrow> status ?d = REJECTED)"
    if "data_sources (payload ?d) = []"
  proof -
    from that have av: "\<not> syntageAvailable sy" "\<not> placesAvailable pl" "\<not> facebookAvailable fb"
      "\<not> instagramAvailable ig" "\<not> twilioAvailable tw" "\<not> bureauAvailable bu"
      "\<not> platformAvailable pf"
      by (simp_all add: consolidate_fields(12) split: if_splits)
    from av(1) have "syntageMonthlyRevenue sy = 0"
      by (simp add: syntage_block_vars(1,3)[OF b(1)])
    then have t: "total_revenue (payload ?d) = 0" by (simp add: consolidate_fields(2))
    have "reason (payload ?d) = [ManualReviewHeader, SatUnavailable]"
      using av by (simp add: consolidate_fields(10) buildReason_def)
    with t show ?thesis by (simp add: consolidate_fields(1) decisionStatus_zero)
  qed
  from none have i8: "(\<forall>x ms v. getRevenueData ad x ms \<noteq> Fulfilled v) \<and>
      (\<forall>x ms v. getPlacesData ad x ms \<noteq> Fulfilled v) \<and>
      (\<forall>x ms v. getPageData ad x ms \<noteq> Fulfilled v) \<and>
      (\<forall>x ms v. getProfileData ad x ms \<noteq> Fulfilled v) \<and>
      (\<forall>x y z ms v. verifyPhone ad x y z ms \<noteq> Fulfilled v) \<and>
      (\<forall>x ms v. getScore ad x ms \<noteq> Fulfilled v) \<and>
      (\<forall>x ms v. getMerchantData ad x ms \<noteq> Fulfilled v)
        \<longrightarrow> data_sources (payload ?d) = []"
    by (rule impI)
  from empty have i9: "data_sources (payload ?d) = [] \<longrightarrow>
        total_revenue (payload ?d) = 0 \<and>
        reason (payload ?d) = [ManualReviewHeader, SatUnavailable] \<and>
        (0 < APPROVAL_THRESHOLD env \<longrightarrow> status ?d = REJECTED)"
    by (rule impI)
  show ?thesis
    by (rule exI[of _ ?d])
       (intro conjI r i1 i2 i3 i4 i5 i6 i7 u1 u2 u3 u4 u5 u6 u7 i8 i9)
qed

text \<open>
  With no adapter answering at the default threshold the run is REJECTED. In the scenario
  the phone adapter does not answer: its source is unavailable with the "not connected"
  result, and the bureau and platform results, which come after it, are in the decision.
\<close>

theorem run_always_returns_witness:
  "0 < APPROVAL_THRESHOLD default_env \<and>
   map_sum id (data_sources \<circ> payload)
     (runUnderwriting default_env failing_adapters sample_application) = Inr [] \<and>
   map_sum id (total_revenue \<circ> payload)
     (runUnderwriting default_env failing_adapters sample_application) = Inr 0 \<and>
   map_sum id status
     (runUnderwriting default_env failing_adapters sample_application) = Inr REJECTED \<and>
   map_sum id (reason \<circ> payload)
     (runUnderwriting default_env failing_adapters sample_application) =
     Inr [ManualReviewHeader, SatUnavailable] \<and>
   map_sum id twilio_result
     (runUnderwriting default_env scenario_adapters sample_application) =
     Inr (Some twilio_not_connected) \<and>
   map_sum id bureau_result
     (runUnderwriting default_env scenario_adapters sample_application) = Inr (Some bureau_stub) \<and>
   map_sum id platform_result
     (runUnderwriting default_env scenario_adapters sample_application) = Inr (Some platform_stub)"
proof -
  have t: "0 < APPROVAL_THRESHOLD default_env" by (simp add: input_defs)
  have f: "(\<forall>x ms v. getRevenueData failing_adapters x ms \<noteq> Fulfilled v) \<and>
      (\<forall>x ms v. getPlacesData failing_adapters x ms \<noteq> Fulfilled v) \<and>
      (\<forall>x ms v. getPageData failing_adapters x ms \<noteq> Fulfilled v) \<and>
      (\<forall>x ms v. getProfileData failing_adapters x ms \<noteq> Fulfilled v) \<and>
      (\<forall>x y z ms v. verifyPhone failing_adapters x y z ms \<noteq> Fulfilled v) \<and>
      (\<forall>x ms v. getScore failing_adapters x ms \<noteq> Fulfilled v) \<and>
      (\<forall>x ms v. getMerchantData failing_adapters x ms \<noteq> Fulfilled v)"
    by (simp add: failing_adapters_def)
  from run_always_returns[of default_env failing_adapters sample_application]
  obtain d where d0: "runUnderwriting default_env failing_adapters sample_application = Inr d"
    and d1: "(\<forall>x ms v. getRevenueData failing_adapters x ms \<noteq> Fulfilled v) \<and>
      (\<forall>x ms v. getPlacesData failing_adapters x ms \<noteq> Fulfilled v) \<and>
      (\<forall>x ms v. getPageData failing_adapters x ms \<noteq> Fulfilled v) \<and>
      (\<forall>x ms v. getProfileData failing_adapters x ms \<noteq> Fulfilled v) \<and>
      (\<forall>x y z ms v. verifyPhone failing_adapters x y z ms \<noteq> Fulfilled v) \<and>
      (\<forall>x ms v. getScore failing_adapters x ms \<noteq> Fulfilled v) \<and>
      (\<forall>x ms v. getMerchantData failing_adapters x ms \<noteq> Fulfilled v)
        \<longrightarrow> data_sources (payload d) = []"
    and d2: "data_sources (payload d) = [] \<longrightarrow>
        total_revenue (payload d) = 0 \<and>
        reason (payload d) = [ManualReviewHeader, SatUnavailable] \<and>
        (0 < APPROVAL_THRESHOLD default_env \<longrightarrow> status d = REJECTED)"
    by (elim exE conjE) (rule that; assumption)
  from d1 f have d3: "data_sources (payload d) = []" by (rule mp)
  with d2 t have d: "total_revenue (payload d) = 0"
    "reason (payload d) = [ManualReviewHeader, SatUnavailable]" "status d = REJECTED"
    by simp_all
  have s0: "\<forall>t. verifyPhone scenario_adapters
            (if form_field fd_phone sample_application \<noteq> []
             then form_field fd_phone sample_application else ''+525500000000'')
            (firstNameOf (form_field fd_legal_name sample_application))
            (lastNameOf (form_field fd_legal_name sample_application)) 8000 \<noteq> Fulfilled t"
    by (simp add: scenario_adapters_def failing_adapters_def)
  have s1: "getScore scenario_adapters (form_field fd_tax_id sample_application) 8000
      = Fulfilled bureau_stub"
    by (simp add: scenario_adapters_def failing_adapters_def)
  have s2: "getMerchantData scenario_adapters (merchant_id sample_application) 5000
      = Fulfilled platform_stub"
    by (simp add: scenario_adapters_def failing_adapters_def)
  from run_always_returns[of default_env scenario_adapters sample_application]
  obtain e where e0: "runUnderwriting default_env scenario_adapters sample_application = Inr e"
    and e1: "\<forall>b. getScore scenario_adapters (form_field fd_tax_id sample_application) 8000
        = Fulfilled b \<longrightarrow> bureau_result e = Some b"
    and e2: "\<forall>q. getMerchantData scenario_adapters (merchant_id sample_application) 5000
        = Fulfilled q \<longrightarrow> platform_result e = Some q"
    and e5: "(\<forall>t. verifyPhone scenario_adapters
            (if form_field fd_phone sample_application \<noteq> []
             then form_field fd_phone sample_application else ''+525500000000'')
            (firstNameOf (form_field fd_legal_name sample_application))
            (lastNameOf (form_field fd_legal_name sample_application)) 8000 \<noteq> Fulfilled t)
        \<longrightarrow> twilio_result e = Some twilio_not_connected \<and>
            ''twilio'' \<notin> set (data_sources (payload e))"
    by (elim exE conjE) (rule that; assumption)
  from e1 s1 have e3: "bureau_result e = Some bureau_stub" by blast
  from e2 s2 have e4: "platform_result e = Some platform_stub" by blast
  from e5 s0 have e6: "twilio_result e = Some twilio_not_connected" by blast
  from t d0 d3 d e0 e3 e4 e6 show ?thesis by simp
qed




end
